theory Spec2Isabelle
  imports Complex_Main
begin

section \<open>JavaScript numbers and cell values\<close>

text \<open>
  The chart computes with JavaScript numbers. They are modelled as exact rationals
  extended by the three special values of IEEE arithmetic that the code can produce:
  the two infinities and NaN. Rounding, overflow and the sign of zero are abstracted
  (a zero divisor is taken as +0); everything else (propagation of NaN, division by
  zero, the coercion of \<^verbatim>\<open>null\<close> and \<^verbatim>\<open>undefined\<close>) is as in the language.
  A finite result is therefore never turned into an infinity here: a statement about
  sums of finite values speaks for the code only where those sums stay within the
  range of doubles, and says so in its hypotheses where that matters.
\<close>

datatype jsnum = Num rat | PosInf | NegInf | NaN

fun js_neg :: "jsnum \<Rightarrow> jsnum" where
  "js_neg (Num a) = Num (- a)"
| "js_neg PosInf = NegInf"
| "js_neg NegInf = PosInf"
| "js_neg NaN = NaN"

fun js_add :: "jsnum \<Rightarrow> jsnum \<Rightarrow> jsnum" where
  "js_add (Num a) (Num b) = Num (a + b)"
| "js_add NaN y = NaN"
| "js_add x NaN = NaN"
| "js_add PosInf NegInf = NaN"
| "js_add NegInf PosInf = NaN"
| "js_add PosInf y = PosInf"
| "js_add x PosInf = PosInf"
| "js_add NegInf y = NegInf"
| "js_add x NegInf = NegInf"

definition js_sub :: "jsnum \<Rightarrow> jsnum \<Rightarrow> jsnum" where
  "js_sub x y = js_add x (js_neg y)"

text \<open>The sign of a number as the product and quotient rules need it.\<close>

datatype sign = Neg | Zero | Pos

fun sign_of :: "jsnum \<Rightarrow> sign option" where
  "sign_of (Num a) = Some (if a < 0 then Neg else if a = 0 then Zero else Pos)"
| "sign_of PosInf = Some Pos"
| "sign_of NegInf = Some Neg"
| "sign_of NaN = None"

fun inf_of_signs :: "sign \<Rightarrow> sign \<Rightarrow> jsnum" where
  "inf_of_signs Zero t = NaN"
| "inf_of_signs s Zero = NaN"
| "inf_of_signs Pos Pos = PosInf"
| "inf_of_signs Neg Neg = PosInf"
| "inf_of_signs Pos Neg = NegInf"
| "inf_of_signs Neg Pos = NegInf"

fun js_mul :: "jsnum \<Rightarrow> jsnum \<Rightarrow> jsnum" where
  "js_mul (Num a) (Num b) = Num (a * b)"
| "js_mul x y =
     (case (sign_of x, sign_of y) of
        (Some s, Some t) \<Rightarrow> inf_of_signs s t
      | _ \<Rightarrow> NaN)"

fun js_div :: "jsnum \<Rightarrow> jsnum \<Rightarrow> jsnum" where
  "js_div (Num a) (Num b) =
     (if b = 0 then (if a = 0 then NaN else if 0 < a then PosInf else NegInf)
      else Num (a / b))"
| "js_div NaN y = NaN"
| "js_div x NaN = NaN"
| "js_div (Num a) y = Num 0"
| "js_div PosInf (Num b) = (if 0 \<le> b then PosInf else NegInf)"
| "js_div NegInf (Num b) = (if 0 \<le> b then NegInf else PosInf)"
| "js_div x y = NaN"

text \<open>\<^verbatim>\<open>Math.min\<close>: NaN if either argument is NaN.\<close>

fun js_le :: "jsnum \<Rightarrow> jsnum \<Rightarrow> bool" where
  "js_le (Num a) (Num b) = (a \<le> b)"
| "js_le NaN y = False"
| "js_le x NaN = False"
| "js_le NegInf y = True"
| "js_le x PosInf = True"
| "js_le x y = False"

definition js_min :: "jsnum \<Rightarrow> jsnum \<Rightarrow> jsnum" where
  "js_min x y = (if x = NaN \<or> y = NaN then NaN else if js_le x y then x else y)"

text \<open>
  A cell of the value column (\<^verbatim>\<open>PrimitiveValue\<close> of a numeric measure): a number or
  \<^verbatim>\<open>null\<close>; \<^verbatim>\<open>undefined\<close> is what reading an array past its end gives.
  \<open>to_number\<close> is the coercion the operators \<^verbatim>\<open>+\<close> and \<^verbatim>\<open>/\<close> apply to such an
  operand (the cast \<^verbatim>\<open><number>\<close> of the source does nothing at run time).
\<close>

datatype jsval = JNum jsnum | JNull | JUndefined

fun to_number :: "jsval \<Rightarrow> jsnum" where
  "to_number (JNum x) = x"
| "to_number JNull = Num 0"
| "to_number JUndefined = NaN"

text \<open>Reading \<^verbatim>\<open>xs[i]\<close>: \<open>None\<close> stands for \<^verbatim>\<open>undefined\<close> past the end.\<close>

definition js_index :: "'a list \<Rightarrow> nat \<Rightarrow> 'a option" where
  "js_index xs i = (if i < length xs then Some (xs ! i) else None)"

datatype error = TypeError

section \<open>The query result and the external collaborators\<close>

text \<open>An identity issued by the host; its only operation is the host's \<^verbatim>\<open>includes\<close>.\<close>

datatype selection_id = SelectionId nat

text \<open>The formatting objects of a data view are opaque to the chart.\<close>

datatype dataview_objects = DataViewObjects nat

text \<open>
  A category column: its \<^verbatim>\<open>source\<close> metadata (present or missing) and its cells,
  each a text or \<^verbatim>\<open>null\<close>.
\<close>

record category_column =
  cat_source :: "string option"
  cat_values :: "string option list"

text \<open>
  An entry of \<^verbatim>\<open>dataValue.objects\<close>: either it has no \<^verbatim>\<open>general\<close> object to read
  (the entry is \<^verbatim>\<open>undefined\<close>, or has no such member), or it has one, with its
  \<^verbatim>\<open>formatString\<close>.
\<close>

datatype value_object = NoGeneral | General "string option"

record value_column =
  val_values :: "jsval list"
  val_objects :: "value_object list option"

record categorical =
  categories :: "category_column list option"
  cat_value_columns :: "value_column list option"

record dataview =
  dv_categorical :: "categorical option"
  dv_metadata_objects :: "dataview_objects option"

record viewport =
  width :: jsnum
  height :: jsnum

record update_options =
  dataViews :: "dataview option list option"
  viewport :: viewport
  formatMode :: bool

text \<open>
  \<^verbatim>\<open>BarChartDataPoint\<close>. The field \<^verbatim>\<open>value\<close> is named \<open>dp_value\<close> here; \<open>cumulative\<close>
  is optional in the source and unset until the update computes it.
\<close>

record data_point =
  cumulative :: "jsnum option"
  dp_value :: jsval
  category :: string
  color :: string
  strokeColor :: "string option"
  strokeWidth :: nat
  selectionId :: "selection_id option"
  index :: nat
  format :: "string option"

text \<open>
  The part of the formatting settings the chart reads: \<^verbatim>\<open>generalView.opacity.value\<close>,
  \<^verbatim>\<open>enableAxis.fill.value.value\<close> and the display names of the colour selector's
  slices (one slice per data point, filled in by \<^verbatim>\<open>populateColorSelector\<close>).
\<close>

record settings =
  opacity :: jsnum
  enableAxis_fill :: string
  slice_displayName :: "nat \<Rightarrow> string"

text \<open>
  Everything the chart calls but does not own: the host's colour palette, identity
  builder and selection manager, the formatting settings service, the object
  enumeration utilities, and the scales of the plotting library. A band scale is given
  by its domain and the width of its range, a linear scale by its domain and its range;
  a linear scale is applied to the number its argument coerces to. The settings model
  is taken to hold a slice for every data point.
\<close>

record services =
  isHighContrast :: bool
  background :: string
  foreground :: string
  getColor :: "string \<Rightarrow> string"
  getCategoricalObjectValue :: "category_column \<Rightarrow> nat \<Rightarrow> string \<Rightarrow> string"
  getValue :: "dataview_objects option \<Rightarrow> string \<Rightarrow> string"
  createSelectionId :: "category_column \<Rightarrow> nat \<Rightarrow> selection_id option"
  id_includes :: "selection_id \<Rightarrow> selection_id \<Rightarrow> bool"
  getSelectionIds :: "selection_id list option"
  populateFormattingSettingsModel :: "dataview option \<Rightarrow> settings"
  populateColorSelector :: "settings \<Rightarrow> data_point list \<Rightarrow> settings"
  scaleBand :: "string list \<Rightarrow> jsnum \<Rightarrow> string \<Rightarrow> jsnum"
  bandwidth :: "string list \<Rightarrow> jsnum \<Rightarrow> jsnum"
  scaleLinear :: "jsnum \<times> jsnum \<Rightarrow> jsnum \<times> jsnum \<Rightarrow> jsnum \<Rightarrow> jsnum"

section \<open>Building the data points\<close>

text \<open>
  The template string of a category cell read at an index: the text itself,
  \<^verbatim>\<open>"null"\<close> for a null cell, \<^verbatim>\<open>"undefined"\<close> past the end of the column.
\<close>

fun template_string :: "string option option \<Rightarrow> string" where
  "template_string None = ''undefined''"
| "template_string (Some None) = ''null''"
| "template_string (Some (Some s)) = s"

definition getColumnColorByIndex :: "category_column \<Rightarrow> nat \<Rightarrow> services \<Rightarrow> string" where
  "getColumnColorByIndex cat i sv =
     (if isHighContrast sv then background sv
      else getCategoricalObjectValue sv cat i (getColor sv (template_string (js_index (cat_values cat) i))))"


definition getColumnStrokeColor :: "services \<Rightarrow> string option" where
  "getColumnStrokeColor sv = (if isHighContrast sv then Some (foreground sv) else None)"

definition getColumnStrokeWidth :: "bool \<Rightarrow> nat" where
  "getColumnStrokeWidth hc = (if hc then 2 else 0)"

definition getAxisTextFillColor ::
  "dataview_objects option \<Rightarrow> services \<Rightarrow> string \<Rightarrow> string" where
  "getAxisTextFillColor objects sv defaultColor =
     (if isHighContrast sv then foreground sv else getValue sv objects defaultColor)"

text \<open>
  The \<^verbatim>\<open>format\<close> member of the pushed object: \<^verbatim>\<open>null\<close> without \<^verbatim>\<open>dataValue.objects\<close>,
  otherwise \<^verbatim>\<open>dataValue.objects[i].general.formatString\<close>, which throws when the entry
  at \<open>i\<close> has no \<^verbatim>\<open>general\<close> to read.
\<close>

definition formatAt :: "value_column \<Rightarrow> nat \<Rightarrow> error + string option" where
  "formatAt dataValue i =
     (case val_objects dataValue of
        None \<Rightarrow> Inr None
      | Some objs \<Rightarrow>
          (case js_index objs i of
             Some (General f) \<Rightarrow> Inr f
           | _ \<Rightarrow> Inl TypeError))"

definition valueAt :: "value_column \<Rightarrow> nat \<Rightarrow> jsval" where
  "valueAt dataValue i =
     (case js_index (val_values dataValue) i of None \<Rightarrow> JUndefined | Some v \<Rightarrow> v)"

text \<open>The body of the \<^verbatim>\<open>for\<close> loop, over the indices still to visit.\<close>

fun pushDataPoints ::
  "services \<Rightarrow> category_column \<Rightarrow> value_column \<Rightarrow> nat list \<Rightarrow> data_point list
     \<Rightarrow> error + data_point list" where
  "pushDataPoints sv cat dataValue [] barChartDataPoints = Inr barChartDataPoints"
| "pushDataPoints sv cat dataValue (i # rest) barChartDataPoints =
     (case formatAt dataValue i of
        Inl e \<Rightarrow> Inl e
      | Inr f \<Rightarrow>
          pushDataPoints sv cat dataValue rest
            (barChartDataPoints @
              [\<lparr>cumulative = None,
                dp_value = valueAt dataValue i,
                category = template_string (js_index (cat_values cat) i),
                color = getColumnColorByIndex cat i sv,
                strokeColor = getColumnStrokeColor sv,
                strokeWidth = getColumnStrokeWidth (isHighContrast sv),
                selectionId = createSelectionId sv cat i,
                index = i,
                format = f\<rparr>]))"

text \<open>
  \<^verbatim>\<open>createSelectorDataPoints\<close>. The guard returns the empty list when a member on the
  path is missing; \<^verbatim>\<open>categories[0].source\<close> and \<^verbatim>\<open>dataValue.values\<close> are read
  without a test of \<^verbatim>\<open>categories[0]\<close> and \<^verbatim>\<open>values[0]\<close>, so an empty array throws
  there.
\<close>

definition createSelectorDataPoints ::
  "update_options \<Rightarrow> services \<Rightarrow> error + data_point list" where
  "createSelectorDataPoints options sv =
     (case dataViews options of
        None \<Rightarrow> Inr []
      | Some dvs \<Rightarrow>
     (case js_index dvs 0 of
        None \<Rightarrow> Inr []
      | Some None \<Rightarrow> Inr []
      | Some (Some dv) \<Rightarrow>
     (case dv_categorical dv of
        None \<Rightarrow> Inr []
      | Some cl \<Rightarrow>
     (case categories cl of
        None \<Rightarrow> Inr []
      | Some cats \<Rightarrow>
     (case js_index cats 0 of
        None \<Rightarrow> Inl TypeError
      | Some cat \<Rightarrow>
     (case cat_source cat of
        None \<Rightarrow> Inr []
      | Some src \<Rightarrow>
     (case cat_value_columns cl of
        None \<Rightarrow> Inr []
      | Some vals \<Rightarrow>
     (case js_index vals 0 of
        None \<Rightarrow> Inl TypeError
      | Some dataValue \<Rightarrow>
          pushDataPoints sv cat dataValue
            [0 ..< max (length (cat_values cat)) (length (val_values dataValue))] []))))))))"

section \<open>The rendered elements and the state of the chart\<close>

text \<open>
  A \<^verbatim>\<open>rect\<close> of the bar container: the datum bound to it and the attributes, classes
  and style properties the update sets. \<open>None\<close> is an attribute or property that is
  not set; \<open>stroke_width\<close> is the number of pixels in \<^verbatim>\<open>`${strokeWidth}px`\<close>, and
  \<open>attr_type\<close> holds the name of the member of \<^verbatim>\<open>SubSelectionStylesType\<close>.
\<close>

record rect_element =
  datum :: data_point
  attr_objectName :: "string option"
  attr_displayName :: "string option"
  attr_type :: "string option"
  class_subSelectable :: bool
  attr_width :: "jsnum option"
  attr_height :: "jsnum option"
  attr_y :: "jsnum option"
  attr_x :: "jsnum option"
  fill_opacity :: "jsnum option"
  stroke_opacity :: "jsnum option"
  fill :: "string option"
  stroke :: "string option"
  stroke_width :: "nat option"

text \<open>A marker of the line; its class, stroke, stroke width and fill are constants.\<close>

record circle_element =
  cx :: jsnum
  cy :: jsnum
  r :: jsnum

datatype scale_spec =
  Band "string list" jsnum
| Linear "jsnum \<times> jsnum" "jsnum \<times> jsnum"

text \<open>An axis group: its ticks are regenerated from the scale on every update.\<close>

record axis_element =
  font_size :: "jsnum option"
  axis_fill :: "string option"
  transform :: "(jsnum \<times> jsnum) option"
  ticks :: "scale_spec option"
  axis_color :: "string option"

text \<open>
  The instance fields of \<^verbatim>\<open>ParetoChart\<close> that the update and the selection
  synchronisation read or write, and the elements under the \<^verbatim>\<open>svg\<close>. \<open>bars\<close> are the
  \<^verbatim>\<open>rect\<close> elements of the bar container in document order; a d3 selection of bars
  is the list of their positions, \<open>None\<close> a selection that is \<^verbatim>\<open>undefined\<close>.
\<close>

record chart =
  formattingSettings :: "settings option"
  barDataPoints :: "data_point list"
  chart_formatMode :: bool
  svg_width :: "jsnum option"
  svg_height :: "jsnum option"
  xAxis :: axis_element
  yAxisLeft :: axis_element
  yAxisRight :: axis_element
  line_d :: "(jsnum \<times> jsnum) list option"
  circles :: "circle_element list"
  bars :: "rect_element list"
  barSelection :: "nat list option"

text \<open>\<^verbatim>\<open>ParetoChart.Config\<close>.\<close>

definition solidOpacity :: jsnum where "solidOpacity = Num 1"
definition transparentOpacity :: jsnum where "transparentOpacity = Num (2 / 5)"
definition margins_top :: jsnum where "margins_top = Num 20"
definition margins_right :: jsnum where "margins_right = Num 2"
definition margins_bottom :: jsnum where "margins_bottom = Num 5"
definition xAxisFontMultiplier :: jsnum where "xAxisFontMultiplier = Num (1 / 25)"

text \<open>The chart as the constructor leaves it: empty groups, nothing bound.\<close>

definition empty_axis :: axis_element where
  "empty_axis = \<lparr>font_size = None, axis_fill = None, transform = None, ticks = None,
     axis_color = None\<rparr>"

definition constructed :: "jsnum \<Rightarrow> chart" where
  "constructed clientHeight =
   \<lparr>formattingSettings = None, barDataPoints = [], chart_formatMode = False,
     svg_width = None, svg_height = Some (js_sub clientHeight (Num 10)), xAxis = empty_axis, yAxisLeft = empty_axis,
     yAxisRight = empty_axis, line_d = None, circles = [], bars = [], barSelection = None\<rparr>"


section \<open>Selection state\<close>

definition isSelectionIdInArray ::
  "services \<Rightarrow> selection_id list option \<Rightarrow> selection_id option \<Rightarrow> bool" where
  "isSelectionIdInArray sv selectionIds sid =
     (case (selectionIds, sid) of
        (Some ids, Some x) \<Rightarrow> list_ex (\<lambda>currentSelectionId. id_includes sv currentSelectionId x) ids
      | _ \<Rightarrow> False)"

text \<open>Setting both opacity properties of one element, and doing so at a position.\<close>

definition style_opacity :: "jsnum \<Rightarrow> rect_element \<Rightarrow> rect_element" where
  "style_opacity v el = el\<lparr>fill_opacity := Some v, stroke_opacity := Some v\<rparr>"

definition modify_at :: "('a \<Rightarrow> 'a) \<Rightarrow> nat \<Rightarrow> 'a list \<Rightarrow> 'a list" where
  "modify_at f p xs = (if p < length xs then xs[p := f (xs ! p)] else xs)"

definition selected_opacity ::
  "services \<Rightarrow> selection_id list \<Rightarrow> rect_element \<Rightarrow> rect_element" where
  "selected_opacity sv ids el =
     style_opacity
       (if isSelectionIdInArray sv (Some ids) (selectionId (datum el))
        then solidOpacity else transparentOpacity) el"

text \<open>
  \<^verbatim>\<open>syncSelectionState\<close>. Reading \<^verbatim>\<open>this.formattingSettings.generalView\<close> throws while
  the settings are still \<^verbatim>\<open>undefined\<close>.
\<close>

definition syncSelectionState ::
  "services \<Rightarrow> chart \<Rightarrow> nat list option \<Rightarrow> selection_id list option \<Rightarrow> error + chart" where
  "syncSelectionState sv s selection selectionIds =
     (case selection of
        None \<Rightarrow> Inr s
      | Some sel \<Rightarrow>
     (case selectionIds of
        None \<Rightarrow> Inr s
      | Some ids \<Rightarrow>
          if ids = [] then
            (case formattingSettings s of
               None \<Rightarrow> Inl TypeError
             | Some fs \<Rightarrow>
                 Inr (s\<lparr>bars :=
                   fold (modify_at (style_opacity (js_div (opacity fs) (Num 100)))) sel (bars s)\<rparr>))
          else Inr (s\<lparr>bars := fold (modify_at (selected_opacity sv ids)) sel (bars s)\<rparr>)))"

section \<open>The update\<close>

text \<open>\<^verbatim>\<open>total\<close> (here \<open>tot\<close>): the \<^verbatim>\<open>forEach\<close> that adds every value to 0.\<close>

definition total_of :: "data_point list \<Rightarrow> jsnum" where
  "total_of dps = foldl (\<lambda>tot v. js_add tot (to_number (dp_value v))) (Num 0) dps"

text \<open>
  The \<^verbatim>\<open>map\<close> that computes the line: it threads \<^verbatim>\<open>cumulative\<close>, stores it in the data
  point and returns the vertex at the right edge of the point's band.
\<close>

fun lineDataPoints ::
  "(string \<Rightarrow> jsnum) \<Rightarrow> jsnum \<Rightarrow> (jsnum \<Rightarrow> jsnum) \<Rightarrow> jsnum \<Rightarrow> jsnum \<Rightarrow> data_point list
     \<Rightarrow> (data_point \<times> (jsnum \<times> jsnum)) list" where
  "lineDataPoints xScale bw yScaleRight tot c [] = []"
| "lineDataPoints xScale bw yScaleRight tot c (el # els) =
     (let c' = js_add c (js_mul (js_div (to_number (dp_value el)) tot) (Num 100))
      in (el\<lparr>cumulative := Some c'\<rparr>, (js_add (xScale (category el)) bw, yScaleRight c'))
         # lineDataPoints xScale bw yScaleRight tot c' els)"

text \<open>
  The attributes and styles set on every bar of the merged selection. The value scale
  is a parameter on numbers and receives \<open>to_number\<close> of the value; what a
  particular scale does with a value that is \<^verbatim>\<open>null\<close> or \<^verbatim>\<open>undefined\<close> before
  coercing it is not modelled.
\<close>

definition set_bar_attributes ::
  "settings \<Rightarrow> bool \<Rightarrow> (string \<Rightarrow> jsnum) \<Rightarrow> jsnum \<Rightarrow> (jsnum \<Rightarrow> jsnum) \<Rightarrow> jsnum
     \<Rightarrow> rect_element \<Rightarrow> rect_element" where
  "set_bar_attributes fs fm xScale bw yScale h el =
     (let d = datum el; v = js_div (opacity fs) (Num 100) in
      el\<lparr>attr_objectName := Some ''colorSelector'',
         attr_displayName := Some (slice_displayName fs (index d)),
         attr_type := Some ''Shape'',
         class_subSelectable := fm,
         attr_width := Some bw,
         attr_height := Some (js_sub h (yScale (to_number (dp_value d)))),
         attr_y := Some (yScale (to_number (dp_value d))),
         attr_x := Some (xScale (category d)),
         fill_opacity := Some v,
         stroke_opacity := Some v,
         fill := Some (color d),
         stroke := strokeColor d,
         stroke_width := Some (strokeWidth d)\<rparr>)"

text \<open>The \<^verbatim>\<open>rect\<close> appended for an entering datum.\<close>

definition new_rect :: "data_point \<Rightarrow> rect_element" where
  "new_rect d = \<lparr>datum = d, attr_objectName = None, attr_displayName = None, attr_type = None,
     class_subSelectable = False, attr_width = None, attr_height = None, attr_y = None,
     attr_x = None, fill_opacity = None, stroke_opacity = None, fill = None, stroke = None,
     stroke_width = None\<rparr>"

text \<open>
  The join of the existing bars with the data, by position: the first bars are bound
  to the new data, bars beyond the data stay as they are until the exit selection is
  removed, and a \<^verbatim>\<open>rect\<close> is appended for every datum beyond the bars.
\<close>

definition data_join :: "rect_element list \<Rightarrow> data_point list \<Rightarrow> rect_element list" where
  "data_join els dps =
     map (\<lambda>(el, d). el\<lparr>datum := d\<rparr>) (zip els dps)
     @ drop (length dps) els
     @ map new_rect (drop (length els) dps)"

definition optional_dataView :: "update_options \<Rightarrow> dataview option" where
  "optional_dataView options =
     (case dataViews options of
        None \<Rightarrow> None
      | Some dvs \<Rightarrow> (case js_index dvs 0 of None \<Rightarrow> None | Some dv \<Rightarrow> dv))"

text \<open>
  \<^verbatim>\<open>ParetoChart.update\<close>. The steps that can throw are the data point builder, the read
  of \<^verbatim>\<open>options.dataViews[0]\<close> for the colour objects, the read of
  \<^verbatim>\<open>this.barDataPoints[0].category\<close> for the start of the line, and the selection
  synchronisation. The direct-edit element is never attached to the document; tooltips,
  event handlers and sub-selection outlines belong to external helpers.
\<close>

definition update :: "services \<Rightarrow> update_options \<Rightarrow> chart \<Rightarrow> error + chart" where
  "update sv options s =
     (let fs0 = populateFormattingSettingsModel sv (optional_dataView options) in
      case createSelectorDataPoints options sv of
        Inl e \<Rightarrow> Inl e
      | Inr dps0 \<Rightarrow>
     (let fs = populateColorSelector sv fs0 dps0;
          w = width (viewport options);
          tot = total_of dps0;
          h = js_sub (height (viewport options)) margins_bottom;
          fontSize = js_mul (js_min h w) xAxisFontMultiplier;
          yScale = scaleLinear sv (Num 0, tot) (h, margins_top);
          yScaleRight = scaleLinear sv (Num 0, Num 100) (h, margins_top);
          domain = map category dps0;
          xScale = scaleBand sv domain w;
          bw = bandwidth sv domain w
      in
      case dataViews options of
        None \<Rightarrow> Inl TypeError
      | Some dvs \<Rightarrow>
     (let colorObjects =
            (case js_index dvs 0 of
               Some (Some dv) \<Rightarrow> dv_metadata_objects dv
             | _ \<Rightarrow> None);
          axisColor = getAxisTextFillColor colorObjects sv (enableAxis_fill fs);
          line = lineDataPoints xScale bw yScaleRight tot (Num 0) dps0;
          dps = map fst line
      in
      case dps of
        [] \<Rightarrow> Inl TypeError
      | first # others \<Rightarrow>
     (let startPoint = (xScale (category first), yScaleRight (Num 0));
          n = length dps;
          joined = data_join (bars s) dps;
          merged = map (set_bar_attributes fs (formatMode options) xScale bw yScale h)
                     (take n joined) @ drop n joined;
          s1 = s\<lparr>formattingSettings := Some fs,
                 barDataPoints := dps,
                 chart_formatMode := formatMode options,
                 svg_width := Some w,
                 svg_height := Some (height (viewport options)),
                 xAxis := (xAxis s)\<lparr>font_size := Some fontSize,
                            axis_fill := Some (enableAxis_fill fs),
                            transform := Some (Num 0, h),
                            ticks := Some (Band domain w),
                            axis_color := Some axisColor\<rparr>,
                 yAxisLeft := (yAxisLeft s)\<lparr>font_size := Some fontSize,
                            transform := Some (Num 0, Num 0),
                            ticks := Some (Linear (Num 0, tot) (h, margins_top)),
                            axis_color := Some axisColor\<rparr>,
                 yAxisRight := (yAxisRight s)\<lparr>font_size := Some fontSize,
                            transform := Some (js_sub w margins_right, Num 0),
                            ticks := Some (Linear (Num 0, Num 100) (h, margins_top)),
                            axis_color := Some axisColor\<rparr>,
                 line_d := Some (startPoint # map snd line),
                 circles := map (\<lambda>(x, y). \<lparr>cx = x, cy = y, r = js_div (js_min h w) (Num 50)\<rparr>)
                              (map snd line),
                 bars := merged,
                 barSelection := Some [0 ..< min (length (bars s)) n]\<rparr>
      in
      case syncSelectionState sv s1 (Some [0 ..< n]) (getSelectionIds sv) of
        Inl e \<Rightarrow> Inl e
      | Inr s2 \<Rightarrow> Inr (s2\<lparr>bars := take n (bars s2)\<rparr>)))))"


section \<open>Derived descriptions used in the proofs\<close>

text \<open>
  What the selection synchronisation at the end of an update does to one bar of the
  merged selection, given the identities the selection manager reports.
\<close>

definition sync_element ::
  "services \<Rightarrow> settings \<Rightarrow> selection_id list option \<Rightarrow> rect_element \<Rightarrow> rect_element" where
  "sync_element sv fs selectionIds el =
     (case selectionIds of
        None \<Rightarrow> el
      | Some ids \<Rightarrow>
          if ids = [] then style_opacity (js_div (opacity fs) (Num 100)) el
          else selected_opacity sv ids el)"

text \<open>
  The chart after an update that does not throw, from the data points the builder
  returned. It is shown below to be what \<open>update\<close> computes (\<open>update_unfold\<close>); the
  bars are given in closed form, one per data point.
\<close>

definition rendered :: "services \<Rightarrow> update_options \<Rightarrow> data_point list \<Rightarrow> chart \<Rightarrow> chart" where
  "rendered sv options dps0 s =
     (let fs = populateColorSelector sv
                 (populateFormattingSettingsModel sv (optional_dataView options)) dps0;
          w = width (viewport options);
          tot = total_of dps0;
          h = js_sub (height (viewport options)) margins_bottom;
          fontSize = js_mul (js_min h w) xAxisFontMultiplier;
          yScale = scaleLinear sv (Num 0, tot) (h, margins_top);
          yScaleRight = scaleLinear sv (Num 0, Num 100) (h, margins_top);
          domain = map category dps0;
          xScale = scaleBand sv domain w;
          bw = bandwidth sv domain w;
          axisColor = getAxisTextFillColor
            (case dataViews options of
               None \<Rightarrow> None
             | Some dvs \<Rightarrow>
                 (case js_index dvs 0 of
                    Some (Some dv) \<Rightarrow> dv_metadata_objects dv
                  | _ \<Rightarrow> None)) sv (enableAxis_fill fs);
          line = lineDataPoints xScale bw yScaleRight tot (Num 0) dps0;
          dps = map fst line
      in s\<lparr>formattingSettings := Some fs,
            barDataPoints := dps,
            chart_formatMode := formatMode options,
            svg_width := Some w,
            svg_height := Some (height (viewport options)),
            xAxis := (xAxis s)\<lparr>font_size := Some fontSize,
                       axis_fill := Some (enableAxis_fill fs),
                       transform := Some (Num 0, h),
                       ticks := Some (Band domain w),
                       axis_color := Some axisColor\<rparr>,
            yAxisLeft := (yAxisLeft s)\<lparr>font_size := Some fontSize,
                       transform := Some (Num 0, Num 0),
                       ticks := Some (Linear (Num 0, tot) (h, margins_top)),
                       axis_color := Some axisColor\<rparr>,
            yAxisRight := (yAxisRight s)\<lparr>font_size := Some fontSize,
                       transform := Some (js_sub w margins_right, Num 0),
                       ticks := Some (Linear (Num 0, Num 100) (h, margins_top)),
                       axis_color := Some axisColor\<rparr>,
            line_d := Some ((xScale (category (hd dps)), yScaleRight (Num 0)) # map snd line),
            circles := map (\<lambda>(x, y). \<lparr>cx = x, cy = y, r = js_div (js_min h w) (Num 50)\<rparr>)
                         (map snd line),
            bars := map (\<lambda>d. sync_element sv fs (getSelectionIds sv)
                      (set_bar_attributes fs (formatMode options) xScale bw yScale h
                         (new_rect d))) dps,
            barSelection := Some [0 ..< min (length (bars s)) (length dps0)]\<rparr>)"

text \<open>
  The step of the running sum, folded over a prefix of the data points: the value of
  \<^verbatim>\<open>cumulative\<close> after the points of the prefix, in their order.
\<close>

definition cumulative_after :: "jsnum \<Rightarrow> data_point list \<Rightarrow> jsnum" where
  "cumulative_after tot dps =
     foldl (\<lambda>c el. js_add c (js_mul (js_div (to_number (dp_value el)) tot) (Num 100)))
       (Num 0) dps"

text \<open>
  A value cell given as an optional rational (\<open>None\<close> is \<^verbatim>\<open>null\<close>), and the magnitude
  such a cell has when \<^verbatim>\<open>null\<close> counts as 0.
\<close>

fun cell_of :: "rat option \<Rightarrow> jsval" where
  "cell_of None = JNull"
| "cell_of (Some q) = JNum (Num q)"

fun magnitude :: "rat option \<Rightarrow> rat" where
  "magnitude None = 0"
| "magnitude (Some q) = q"

section \<open>A reference instance of the collaborators\<close>

text \<open>
  The scales of the plotting library for finite inputs, after its documentation: an
  ordinal domain keeps the first occurrence of every label; a band scale with a rounded
  range \<open>[0, w]\<close> and padding 0.2 has the step \<open>\<lfloor>|w| / max 1 (n + 0.2)\<rfloor>\<close> for \<open>n\<close>
  distinct labels, centres the bands in the range and rounds the start and the band
  width; a linear scale interpolates between the ends of its range and maps everything
  to the middle when its domain is a single point. The padding arithmetic is exact
  here, where doubles can give a denominator one rounding away and with it a step that
  differs by one. They serve as the concrete scales of the examples; the general
  theorems hold for any scales.
\<close>

definition ordinal_domain :: "string list \<Rightarrow> string list" where
  "ordinal_domain labels = rev (remdups (rev labels))"

fun index_of :: "'a \<Rightarrow> 'a list \<Rightarrow> nat option" where
  "index_of x [] = None"
| "index_of x (y # ys) = (if x = y then Some 0 else map_option Suc (index_of x ys))"

definition js_round :: "rat \<Rightarrow> rat" where
  "js_round x = of_int \<lfloor>x + 1 / 2\<rfloor>"

definition d3_band_step :: "string list \<Rightarrow> rat \<Rightarrow> rat" where
  "d3_band_step labels w =
     of_int \<lfloor>\<bar>w\<bar> / max 1 (of_nat (length (ordinal_domain labels)) - 1 / 5 + 2 * (1 / 5))\<rfloor>"

definition d3_band_start :: "string list \<Rightarrow> rat \<Rightarrow> rat" where
  "d3_band_start labels w =
     js_round (min 0 w
       + (\<bar>w\<bar> - d3_band_step labels w * (of_nat (length (ordinal_domain labels)) - 1 / 5))
         * (1 / 2))"

fun d3_scaleBand :: "string list \<Rightarrow> jsnum \<Rightarrow> string \<Rightarrow> jsnum" where
  "d3_scaleBand labels (Num w) lbl =
     (case index_of lbl (ordinal_domain labels) of
        None \<Rightarrow> NaN
      | Some i \<Rightarrow>
          Num (d3_band_start labels w + d3_band_step labels w *
                 of_nat (if w < 0 then length (ordinal_domain labels) - 1 - i else i)))"
| "d3_scaleBand labels w lbl = NaN"

fun d3_bandwidth :: "string list \<Rightarrow> jsnum \<Rightarrow> jsnum" where
  "d3_bandwidth labels (Num w) = Num (js_round (d3_band_step labels w * (1 - 1 / 5)))"
| "d3_bandwidth labels w = NaN"

definition d3_scaleLinear :: "jsnum \<times> jsnum \<Rightarrow> jsnum \<times> jsnum \<Rightarrow> jsnum \<Rightarrow> jsnum" where
  "d3_scaleLinear dm rng x =
     (let b = js_sub (snd dm) (fst dm);
          t = (if b = NaN then NaN else if b = Num 0 then Num (1 / 2)
               else js_div (js_sub x (fst dm)) b)
      in js_add (js_mul (fst rng) (js_sub (Num 1) t)) (js_mul (snd rng) t))"

text \<open>
  A host in normal contrast with no colour overrides, identities numbered by index
  and included only in themselves, nothing selected, and the opacity setting 80.
\<close>

definition example_services :: services where
  "example_services =
     \<lparr>isHighContrast = False,
      background = ''#ffffff'',
      foreground = ''#000000'',
      getColor = (\<lambda>label. CHR ''#'' # label),
      getCategoricalObjectValue = (\<lambda>cat i defaultColor. defaultColor),
      getValue = (\<lambda>objects defaultColor. defaultColor),
      createSelectionId = (\<lambda>cat i. Some (SelectionId i)),
      id_includes = (\<lambda>a b. a = b),
      getSelectionIds = Some [],
      populateFormattingSettingsModel =
        (\<lambda>dv. \<lparr>opacity = Num 80, enableAxis_fill = ''#000000'', slice_displayName = (\<lambda>i. [])\<rparr>),
      populateColorSelector =
        (\<lambda>fs dps. fs\<lparr>slice_displayName :=
           (\<lambda>i. case js_index dps i of None \<Rightarrow> [] | Some d \<Rightarrow> category d)\<rparr>),
      scaleBand = d3_scaleBand,
      bandwidth = d3_bandwidth,
      scaleLinear = d3_scaleLinear\<rparr>"

text \<open>
  A query result with one category column and one value column without format
  objects, in a viewport of 300 by 205.
\<close>

definition example_category :: "string option list \<Rightarrow> category_column" where
  "example_category cats = \<lparr>cat_source = Some ''Category'', cat_values = cats\<rparr>"

definition example_value :: "jsval list \<Rightarrow> value_column" where
  "example_value vals = \<lparr>val_values = vals, val_objects = None\<rparr>"

definition example_categorical :: "string option list \<Rightarrow> jsval list \<Rightarrow> categorical" where
  "example_categorical cats vals =
     \<lparr>categories = Some [example_category cats],
      cat_value_columns = Some [example_value vals]\<rparr>"

definition example_dataview :: "string option list \<Rightarrow> jsval list \<Rightarrow> dataview" where
  "example_dataview cats vals =
     \<lparr>dv_categorical = Some (example_categorical cats vals), dv_metadata_objects = None\<rparr>"

definition example_options :: "string option list \<Rightarrow> jsval list \<Rightarrow> update_options" where
  "example_options cats vals =
     \<lparr>dataViews = Some [Some (example_dataview cats vals)],
      viewport = \<lparr>width = Num 300, height = Num 205\<rparr>,
      formatMode = False\<rparr>"

text \<open>The chart after a first update with the categories A, B, C and the values 10, 30, 60.\<close>

definition example_chart :: chart where
  "example_chart =
     (case update example_services
             (example_options [Some ''A'', Some ''B'', Some ''C'']
                [JNum (Num 10), JNum (Num 30), JNum (Num 60)])
             (constructed (Num 210)) of
        Inr s \<Rightarrow> s
      | Inl e \<Rightarrow> constructed (Num 210))"

text \<open>The same chart drawn by a host whose identity builder returns nothing.\<close>

definition unidentified_chart :: chart where
  "unidentified_chart =
     (case update (example_services\<lparr>createSelectionId := (\<lambda>cat i. None)\<rparr>)
             (example_options [Some ''A'', Some ''B'', Some ''C'']
                [JNum (Num 10), JNum (Num 30), JNum (Num 60)])
             (constructed (Num 210)) of
        Inr s \<Rightarrow> s
      | Inl e \<Rightarrow> constructed (Num 210))"

text \<open>The first chart again, drawn with the opacity setting 30.\<close>

definition faint_services :: services where
  "faint_services =
     example_services\<lparr>populateFormattingSettingsModel :=
       (\<lambda>dv. \<lparr>opacity = Num 30, enableAxis_fill = ''#000000'', slice_displayName = (\<lambda>i. [])\<rparr>)\<rparr>"

definition faint_chart :: chart where
  "faint_chart =
     (case update faint_services
             (example_options [Some ''A'', Some ''B'', Some ''C'']
                [JNum (Num 10), JNum (Num 30), JNum (Num 60)])
             (constructed (Num 210)) of
        Inr s \<Rightarrow> s
      | Inl e \<Rightarrow> constructed (Num 210))"

section \<open>Properties of the data point builder\<close>

lemma pushDataPoints_Inr:
  assumes "list_all (\<lambda>i. formatAt dataValue i \<noteq> Inl TypeError) idxs"
  shows "\<exists>new. pushDataPoints sv cat dataValue idxs acc = Inr (acc @ new)
           \<and> length new = length idxs
           \<and> map index new = idxs
           \<and> map dp_value new = map (valueAt dataValue) idxs
           \<and> map category new = map (\<lambda>i. template_string (js_index (cat_values cat) i)) idxs"
  using assms
proof (induction idxs arbitrary: acc)
  case Nil
  then show ?case by simp
next
  case (Cons i rest)
  from Cons.prems obtain f where f: "formatAt dataValue i = Inr f"
    by (cases "formatAt dataValue i") (auto intro: error.exhaust)
  let ?d = "\<lparr>cumulative = None, dp_value = valueAt dataValue i,
              category = template_string (js_index (cat_values cat) i),
              color = getColumnColorByIndex cat i sv,
              strokeColor = getColumnStrokeColor sv,
              strokeWidth = getColumnStrokeWidth (isHighContrast sv),
              selectionId = createSelectionId sv cat i, index = i, format = f\<rparr>"
  from Cons.prems have "list_all (\<lambda>i. formatAt dataValue i \<noteq> Inl TypeError) rest" by simp
  from Cons.IH [OF this, of "acc @ [?d]"] obtain new where
    new: "pushDataPoints sv cat dataValue rest (acc @ [?d]) = Inr ((acc @ [?d]) @ new)"
      "length new = length rest" "map index new = rest"
      "map dp_value new = map (valueAt dataValue) rest"
      "map category new = map (\<lambda>i. template_string (js_index (cat_values cat) i)) rest"
    by blast
  show ?case
    by (rule exI [of _ "?d # new"]) (simp add: f new)
qed

lemma createSelectorDataPoints_columns:
  assumes "dataViews options = Some (Some dv # dvs)"
    and "dv_categorical dv = Some cl"
    and "categories cl = Some (cat # cats)"
    and "cat_source cat = Some src"
    and "cat_value_columns cl = Some (dataValue # vals)"
  shows "createSelectorDataPoints options sv =
         pushDataPoints sv cat dataValue
           [0 ..< max (length (cat_values cat)) (length (val_values dataValue))] []"
  using assms by (simp add: createSelectorDataPoints_def js_index_def)

text \<open>The inputs for which the guard of the builder returns the empty list.\<close>

lemma createSelectorDataPoints_guard:
  "dataViews options = None \<Longrightarrow> createSelectorDataPoints options sv = Inr []"
  "dataViews options = Some [] \<Longrightarrow> createSelectorDataPoints options sv = Inr []"
  "dataViews options = Some (None # dvs) \<Longrightarrow> createSelectorDataPoints options sv = Inr []"
  "dataViews options = Some (Some dv # dvs) \<Longrightarrow> dv_categorical dv = None \<Longrightarrow>
     createSelectorDataPoints options sv = Inr []"
  "dataViews options = Some (Some dv # dvs) \<Longrightarrow> dv_categorical dv = Some cl \<Longrightarrow>
     categories cl = None \<Longrightarrow> createSelectorDataPoints options sv = Inr []"
  "dataViews options = Some (Some dv # dvs) \<Longrightarrow> dv_categorical dv = Some cl \<Longrightarrow>
     categories cl = Some (cat # cats) \<Longrightarrow> cat_source cat = None \<Longrightarrow>
     createSelectorDataPoints options sv = Inr []"
  "dataViews options = Some (Some dv # dvs) \<Longrightarrow> dv_categorical dv = Some cl \<Longrightarrow>
     categories cl = Some (cat # cats) \<Longrightarrow> cat_source cat = Some src \<Longrightarrow>
     cat_value_columns cl = None \<Longrightarrow> createSelectorDataPoints options sv = Inr []"
  by (simp_all add: createSelectorDataPoints_def js_index_def)

text \<open>The two empty arrays on which it throws instead.\<close>

lemma createSelectorDataPoints_empty_array:
  "dataViews options = Some (Some dv # dvs) \<Longrightarrow> dv_categorical dv = Some cl \<Longrightarrow>
     categories cl = Some [] \<Longrightarrow> createSelectorDataPoints options sv = Inl TypeError"
  "dataViews options = Some (Some dv # dvs) \<Longrightarrow> dv_categorical dv = Some cl \<Longrightarrow>
     categories cl = Some (cat # cats) \<Longrightarrow> cat_source cat = Some src \<Longrightarrow>
     cat_value_columns cl = Some [] \<Longrightarrow> createSelectorDataPoints options sv = Inl TypeError"
  by (simp_all add: createSelectorDataPoints_def js_index_def)

section \<open>Properties of the running sum\<close>

lemma length_lineDataPoints [simp]: "length (lineDataPoints x b y t c dps) = length dps"
  by (induction dps arbitrary: c) (simp_all add: Let_def)

lemma lineDataPoints_Nil_iff [simp]: "(lineDataPoints x b y t c dps = []) = (dps = [])"
  by (cases dps) (simp_all add: Let_def)

lemma lineDataPoints_fields:
  "map (index \<circ> fst) (lineDataPoints x b y t c dps) = map index dps \<and>
   map (category \<circ> fst) (lineDataPoints x b y t c dps) = map category dps \<and>
   map (dp_value \<circ> fst) (lineDataPoints x b y t c dps) = map dp_value dps \<and>
   map (selectionId \<circ> fst) (lineDataPoints x b y t c dps) = map selectionId dps"
  by (induction dps arbitrary: c) (simp_all add: Let_def)

lemma lineDataPoints_cumulative_foldl:
  "i < length dps \<Longrightarrow>
   cumulative (fst (lineDataPoints x b y t c dps ! i)) =
     Some (foldl (\<lambda>c el. js_add c (js_mul (js_div (to_number (dp_value el)) t) (Num 100)))
             c (take (Suc i) dps))"
proof (induction dps arbitrary: c i)
  case Nil
  then show ?case by simp
next
  case (Cons el els)
  show ?case
  proof (cases i)
    case 0
    then show ?thesis by (simp add: Let_def)
  next
    case (Suc j)
    with Cons.prems have "j < length els" by simp
    from Cons.IH [OF this] show ?thesis by (simp add: Suc Let_def)
  qed
qed

lemma total_of_cells:
  "map dp_value dps = map cell_of rs \<Longrightarrow>
   foldl (\<lambda>tot v. js_add tot (to_number (dp_value v))) (Num a) dps
     = Num (a + sum_list (map magnitude rs))"
proof (induction dps arbitrary: a rs)
  case Nil
  then show ?case by simp
next
  case (Cons d ds)
  then obtain q qs where rs: "rs = q # qs" by (cases rs) auto
  with Cons.prems have d: "dp_value d = cell_of q" and ds: "map dp_value ds = map cell_of qs"
    by simp_all
  have "to_number (cell_of q) = Num (magnitude q)" by (cases q) simp_all
  with Cons.IH [OF ds] show ?case by (simp add: rs d add.assoc)
qed

lemma cumulative_cells:
  assumes "map dp_value dps = map cell_of rs" and "t \<noteq> 0"
  shows "map (cumulative \<circ> fst) (lineDataPoints x b y (Num t) (Num c) dps) =
         map (\<lambda>i. Some (Num (c + sum_list (take (Suc i) (map magnitude rs)) / t * 100)))
           [0 ..< length rs]"
  using assms(1)
proof (induction dps arbitrary: c rs)
  case Nil
  then show ?case by simp
next
  case (Cons d ds)
  then obtain q qs where rs: "rs = q # qs" by (cases rs) auto
  with Cons.prems have d: "dp_value d = cell_of q" and ds: "map dp_value ds = map cell_of qs"
    by simp_all
  have q: "to_number (cell_of q) = Num (magnitude q)" by (cases q) simp_all
  have step: "js_add (Num c) (js_mul (js_div (Num (magnitude q)) (Num t)) (Num 100))
              = Num (c + magnitude q / t * 100)"
    using assms(2) by simp
  have shift: "map (\<lambda>i. Some (Num (c + sum_list (take (Suc i) (map magnitude (q # qs))) / t * 100)))
                 [0 ..< length (q # qs)]
               = Some (Num (c + magnitude q / t * 100))
                 # map (\<lambda>i. Some (Num (c + magnitude q / t * 100
                                    + sum_list (take (Suc i) (map magnitude qs)) / t * 100)))
                     [0 ..< length qs]"
    by (simp add: map_upt_Suc add_divide_distrib distrib_right add.assoc del: upt_Suc)
  have "map (cumulative \<circ> fst) (lineDataPoints x b y (Num t) (Num c) (d # ds))
        = Some (Num (c + magnitude q / t * 100))
          # map (cumulative \<circ> fst)
              (lineDataPoints x b y (Num t) (Num (c + magnitude q / t * 100)) ds)"
    by (simp add: Let_def d q step del: js_add.simps js_div.simps js_mul.simps)
  also have "\<dots> = Some (Num (c + magnitude q / t * 100))
                 # map (\<lambda>i. Some (Num (c + magnitude q / t * 100
                                    + sum_list (take (Suc i) (map magnitude qs)) / t * 100)))
                     [0 ..< length qs]"
    by (simp only: Cons.IH [OF ds])
  finally show ?case
    unfolding rs shift .
qed

section \<open>Properties of the selection synchronisation\<close>

lemma fold_modify_at_length [simp]: "length (fold (modify_at f) ps xs) = length xs"
  by (induction ps arbitrary: xs) (simp_all add: modify_at_def)

lemma fold_modify_at_nth:
  assumes idem: "\<And>x. f (f x) = f x" and "p < length xs"
  shows "fold (modify_at f) ps xs ! p = (if p \<in> set ps then f (xs ! p) else xs ! p)"
  using assms(2)
proof (induction ps arbitrary: xs)
  case Nil
  then show ?case by simp
next
  case (Cons q qs)
  have len: "p < length (modify_at f q xs)" using Cons.prems by (simp add: modify_at_def)
  have at: "modify_at f q xs ! p = (if p = q then f (xs ! p) else xs ! p)"
    using Cons.prems by (simp add: modify_at_def)
  show ?case
    using Cons.IH [OF len, unfolded at] by (auto simp: idem)
qed

lemma fold_modify_at_upt:
  "n \<le> length xs \<Longrightarrow> fold (modify_at f) [0 ..< n] xs = map f (take n xs) @ drop n xs"
proof (induction n)
  case 0
  then show ?case by simp
next
  case (Suc n)
  then have n: "n < length xs" by simp
  have "fold (modify_at f) [0 ..< Suc n] xs = modify_at f n (map f (take n xs) @ drop n xs)"
    using Suc by simp
  also have "\<dots> = map f (take (Suc n) xs) @ drop (Suc n) xs"
    using n by (simp add: modify_at_def take_Suc_conv_app_nth list_update_append nth_append
        upd_conv_take_nth_drop Cons_nth_drop_Suc min_def)
  finally show ?case .
qed

lemma style_opacity_idem: "style_opacity v (style_opacity v el) = style_opacity v el"
  by (simp add: style_opacity_def)

lemma selected_opacity_idem:
  "selected_opacity sv ids (selected_opacity sv ids el) = selected_opacity sv ids el"
  by (simp add: selected_opacity_def style_opacity_def)

lemma syncSelectionState_upt:
  assumes "n \<le> length (bars s)" "formattingSettings s = Some fs"
  shows "syncSelectionState sv s (Some [0 ..< n]) ids =
         Inr (s\<lparr>bars := map (sync_element sv fs ids) (take n (bars s)) @ drop n (bars s)\<rparr>)"
  using assms
  by (cases ids) (simp_all add: syncSelectionState_def sync_element_def fold_modify_at_upt
      cong: map_cong)

section \<open>The update in closed form\<close>

lemma set_bar_attributes_datum:
  "set_bar_attributes fs fm x bw y h (el\<lparr>datum := d\<rparr>)
   = set_bar_attributes fs fm x bw y h (new_rect d)"
  by (cases el) (simp add: set_bar_attributes_def new_rect_def Let_def)

lemma length_data_join: "length (data_join els dps) = max (length els) (length dps)"
  by (auto simp: data_join_def)

lemma data_join_nth:
  "i < length dps \<Longrightarrow>
   data_join els dps ! i
   = (if i < length els then (els ! i)\<lparr>datum := dps ! i\<rparr> else new_rect (dps ! i))"
  by (auto simp: data_join_def nth_append min_def)

lemma map_comp_take_data_join:
  "n = length dps \<Longrightarrow>
   map (g \<circ> set_bar_attributes fs fm x bw y h) (take n (data_join els dps))
   = map (\<lambda>d. g (set_bar_attributes fs fm x bw y h (new_rect d))) dps"
  by (rule nth_equalityI)
     (simp_all add: length_data_join data_join_nth set_bar_attributes_datum)

lemma createSelectorDataPoints_nonempty_dataViews:
  "createSelectorDataPoints options sv = Inr dps0 \<Longrightarrow> dps0 \<noteq> [] \<Longrightarrow>
   \<exists>dvs. dataViews options = Some dvs"
  by (auto simp: createSelectorDataPoints_def split: option.splits)

lemma update_unfold:
  assumes c: "createSelectorDataPoints options sv = Inr dps0" and ne: "dps0 \<noteq> []"
  shows "update sv options s = Inr (rendered sv options dps0 s)"
proof -
  from createSelectorDataPoints_nonempty_dataViews [OF c ne]
  obtain dvs where dvs: "dataViews options = Some dvs" ..
  show ?thesis
    unfolding update_def rendered_def Let_def c dvs sum.case option.case option.sel
    apply (simp only: list.case_eq_if)
    apply (subst syncSelectionState_upt [where fs = "populateColorSelector sv
                    (populateFormattingSettingsModel sv (optional_dataView options)) dps0"])
      apply (simp add: length_data_join)
     apply simp
    apply (simp add: ne length_data_join map_comp_take_data_join)
    done
qed

lemma update_empty:
  "createSelectorDataPoints options sv = Inr [] \<Longrightarrow> update sv options s = Inl TypeError"
  by (simp add: update_def Let_def split: option.splits)

lemma update_builder_error:
  "createSelectorDataPoints options sv = Inl e \<Longrightarrow> update sv options s = Inl e"
  by (simp add: update_def Let_def)

lemma update_InrD:
  assumes "update sv options s = Inr s'"
  shows "\<exists>dps0. createSelectorDataPoints options sv = Inr dps0 \<and> dps0 \<noteq> []
           \<and> s' = rendered sv options dps0 s"
proof (cases "createSelectorDataPoints options sv")
  case (Inl e)
  with assms show ?thesis by (simp add: update_builder_error)
next
  case (Inr dps0)
  show ?thesis
  proof (cases "dps0 = []")
    case True
    with Inr assms show ?thesis by (simp add: update_empty)
  next
    case False
    with Inr assms show ?thesis by (simp add: update_unfold)
  qed
qed

lemma rendered_barDataPoints:
  "barDataPoints (rendered sv options dps0 s) =
     map fst (lineDataPoints (scaleBand sv (map category dps0) (width (viewport options)))
        (bandwidth sv (map category dps0) (width (viewport options)))
        (scaleLinear sv (Num 0, Num 100)
           (js_sub (height (viewport options)) margins_bottom, margins_top))
        (total_of dps0) (Num 0) dps0)"
  by (simp add: rendered_def Let_def)

lemma rendered_twice:
  "rendered sv options dps0 (rendered sv options dps0 s)
   = (rendered sv options dps0 s)\<lparr>barSelection := Some [0 ..< length dps0]\<rparr>"
  by (simp add: rendered_def Let_def)

section \<open>Claims about the selection state\<close>

text \<open>
  Claim C6, as amended. For a selection of bars and a list of selected identities: when
  the list is not empty, every bar of the selection whose identity is included in some
  identity of the list (by the host's \<^verbatim>\<open>includes\<close>) gets fill and stroke opacity 1,
  the solid value, and every other bar of the selection gets the dimmed value 0.4; when
  the list is empty, every bar of the selection gets the general opacity setting divided
  by 100, \<^verbatim>\<open>generalView.opacity.value / 100\<close>, whatever that setting is, and not the
  solid value.
\<close>

theorem C6_selection_opacity:
  "(ids \<noteq> [] \<longrightarrow>
      (\<exists>s'. syncSelectionState sv s (Some sel) (Some ids) = Inr s'
         \<and> length (bars s') = length (bars s)
         \<and> (\<forall>p\<in>set sel. p < length (bars s) \<longrightarrow>
              fill_opacity (bars s' ! p) =
                Some (if (\<exists>x. selectionId (datum (bars s ! p)) = Some x
                            \<and> (\<exists>c\<in>set ids. id_includes sv c x))
                      then Num 1 else Num (2 / 5))
              \<and> stroke_opacity (bars s' ! p) = fill_opacity (bars s' ! p)))) \<and>
   (formattingSettings s = Some fs \<longrightarrow>
      (\<exists>s'. syncSelectionState sv s (Some sel) (Some []) = Inr s'
         \<and> length (bars s') = length (bars s)
         \<and> (\<forall>p\<in>set sel. p < length (bars s) \<longrightarrow>
              fill_opacity (bars s' ! p) = Some (js_div (opacity fs) (Num 100))
              \<and> stroke_opacity (bars s' ! p) = Some (js_div (opacity fs) (Num 100)))))"
proof (intro conjI impI)
  assume ne: "ids \<noteq> []"
  let ?bs = "fold (modify_at (selected_opacity sv ids)) sel (bars s)"
  have run: "syncSelectionState sv s (Some sel) (Some ids) = Inr (s\<lparr>bars := ?bs\<rparr>)"
    using ne by (simp add: syncSelectionState_def)
  have member: "\<And>el. isSelectionIdInArray sv (Some ids) (selectionId (datum el))
      = (\<exists>x. selectionId (datum el) = Some x \<and> (\<exists>c\<in>set ids. id_includes sv c x))"
    by (auto simp: isSelectionIdInArray_def list_ex_iff split: option.splits)
  have each: "\<forall>p\<in>set sel. p < length (bars s) \<longrightarrow>
              fill_opacity (?bs ! p) =
                Some (if (\<exists>x. selectionId (datum (bars s ! p)) = Some x
                            \<and> (\<exists>c\<in>set ids. id_includes sv c x))
                      then Num 1 else Num (2 / 5))
              \<and> stroke_opacity (?bs ! p) = fill_opacity (?bs ! p)"
    by (auto simp: fold_modify_at_nth selected_opacity_idem selected_opacity_def member
        style_opacity_def solidOpacity_def transparentOpacity_def)
  show "\<exists>s'. syncSelectionState sv s (Some sel) (Some ids) = Inr s'
         \<and> length (bars s') = length (bars s)
         \<and> (\<forall>p\<in>set sel. p < length (bars s) \<longrightarrow>
              fill_opacity (bars s' ! p) =
                Some (if (\<exists>x. selectionId (datum (bars s ! p)) = Some x
                            \<and> (\<exists>c\<in>set ids. id_includes sv c x))
                      then Num 1 else Num (2 / 5))
              \<and> stroke_opacity (bars s' ! p) = fill_opacity (bars s' ! p))"
    using each by (simp add: run)
next
  assume fs: "formattingSettings s = Some fs"
  let ?v = "js_div (opacity fs) (Num 100)"
  let ?bs = "fold (modify_at (style_opacity ?v)) sel (bars s)"
  have run: "syncSelectionState sv s (Some sel) (Some []) = Inr (s\<lparr>bars := ?bs\<rparr>)"
    using fs by (simp add: syncSelectionState_def)
  have each: "\<forall>p\<in>set sel. p < length (bars s) \<longrightarrow>
              fill_opacity (?bs ! p) = Some ?v \<and> stroke_opacity (?bs ! p) = Some ?v"
    by (simp add: fold_modify_at_nth style_opacity_idem) (simp add: style_opacity_def)
  show "\<exists>s'. syncSelectionState sv s (Some sel) (Some []) = Inr s'
         \<and> length (bars s') = length (bars s)
         \<and> (\<forall>p\<in>set sel. p < length (bars s) \<longrightarrow>
              fill_opacity (bars s' ! p) = Some (js_div (opacity fs) (Num 100))
              \<and> stroke_opacity (bars s' ! p) = Some (js_div (opacity fs) (Num 100)))"
    using each by (simp add: run)
qed

theorem C6_witness:
  "[SelectionId 1] \<noteq> []
   \<and> map_option opacity (formattingSettings example_chart) = Some (Num 80)
   \<and> map_sum id (\<lambda>s'. map fill_opacity (bars s'))
        (syncSelectionState example_services example_chart (Some [0, 1, 2]) (Some [SelectionId 1]))
       = Inr [Some (Num (2 / 5)), Some (Num 1), Some (Num (2 / 5))]
   \<and> map_sum id (\<lambda>s'. map stroke_opacity (bars s'))
        (syncSelectionState example_services example_chart (Some [0, 1, 2]) (Some [SelectionId 1]))
       = Inr [Some (Num (2 / 5)), Some (Num 1), Some (Num (2 / 5))]
   \<and> map_sum id (\<lambda>s'. map fill_opacity (bars s'))
        (syncSelectionState example_services example_chart (Some [0, 1, 2]) (Some []))
       = Inr [Some (Num (4 / 5)), Some (Num (4 / 5)), Some (Num (4 / 5))]
   \<and> map_sum id (\<lambda>s'. map stroke_opacity (bars s'))
        (syncSelectionState example_services example_chart (Some [0, 1, 2]) (Some []))
       = Inr [Some (Num (4 / 5)), Some (Num (4 / 5)), Some (Num (4 / 5))]"
proof -
  have ev: ?thesis by code_simp
  from C6_selection_opacity [where ids = "[SelectionId 1]" and sv = example_services
      and s = example_chart and sel = "[0, 1, 2]" and fs = "the (formattingSettings example_chart)"]
    ev
  show ?thesis by blast
qed

text \<open>
  The claim as stated (with an empty list every bar gets the solid opacity, so nothing
  is dimmed) fails when the opacity setting is 30: every bar gets 0.3, which is not the
  solid value 1 and lies below the dimmed value 0.4.
\<close>

theorem C6_counterexample:
  "map_sum id (\<lambda>s'. (map fill_opacity (bars s'), map stroke_opacity (bars s')))
     (syncSelectionState faint_services faint_chart (Some [0, 1, 2]) (Some []))
   = Inr ([Some (Num (3 / 10)), Some (Num (3 / 10)), Some (Num (3 / 10))],
          [Some (Num (3 / 10)), Some (Num (3 / 10)), Some (Num (3 / 10))])
   \<and> solidOpacity = Num 1 \<and> transparentOpacity = Num (2 / 5)"
  by code_simp

text \<open>
  Claim C9. When the bar selection or the list of identities is missing,
  \<^verbatim>\<open>syncSelectionState\<close> returns at once and leaves the chart, and with it every
  opacity, as it was.
\<close>

theorem C9_sync_missing_argument_keeps_state:
  "selection = None \<or> selectionIds = None \<Longrightarrow>
   syncSelectionState sv s selection selectionIds = Inr s"
  by (auto simp: syncSelectionState_def split: option.splits)

theorem C9_witness:
  "syncSelectionState example_services (constructed (Num 210)) None (Some [SelectionId 0])
     = Inr (constructed (Num 210))
   \<and> syncSelectionState example_services example_chart (Some [0, 1, 2]) None = Inr example_chart"
  using C9_sync_missing_argument_keeps_state
          [of None "Some [SelectionId 0]" example_services "constructed (Num 210)"]
        C9_sync_missing_argument_keeps_state
          [of "Some [0, 1, 2]" None example_services example_chart]
  by simp

text \<open>
  Claim C10. \<^verbatim>\<open>isSelectionIdInArray\<close> is false when the list or the queried identity
  is missing; so under a selection that is not empty, a bar of the selection whose
  datum has no identity gets the dimmed opacity 0.4.
\<close>

theorem C10_missing_identity_is_dimmed:
  "(selectionIds = None \<or> sid = None \<longrightarrow> \<not> isSelectionIdInArray sv selectionIds sid) \<and>
   (ids \<noteq> [] \<and> p \<in> set sel \<and> p < length (bars s) \<and> selectionId (datum (bars s ! p)) = None \<longrightarrow>
      (\<exists>s'. syncSelectionState sv s (Some sel) (Some ids) = Inr s'
         \<and> fill_opacity (bars s' ! p) = Some (Num (2 / 5))
         \<and> stroke_opacity (bars s' ! p) = Some (Num (2 / 5))))"
proof (intro conjI impI)
  assume "selectionIds = None \<or> sid = None"
  then show "\<not> isSelectionIdInArray sv selectionIds sid"
    by (auto simp: isSelectionIdInArray_def split: option.splits)
next
  assume a: "ids \<noteq> [] \<and> p \<in> set sel \<and> p < length (bars s)
             \<and> selectionId (datum (bars s ! p)) = None"
  then have run: "syncSelectionState sv s (Some sel) (Some ids)
                  = Inr (s\<lparr>bars := fold (modify_at (selected_opacity sv ids)) sel (bars s)\<rparr>)"
    by (simp add: syncSelectionState_def)
  have el: "fold (modify_at (selected_opacity sv ids)) sel (bars s) ! p
            = selected_opacity sv ids (bars s ! p)"
    using a by (simp add: fold_modify_at_nth selected_opacity_idem)
  have dim: "selected_opacity sv ids (bars s ! p) = style_opacity transparentOpacity (bars s ! p)"
    using a by (simp add: selected_opacity_def isSelectionIdInArray_def)
  show "\<exists>s'. syncSelectionState sv s (Some sel) (Some ids) = Inr s'
         \<and> fill_opacity (bars s' ! p) = Some (Num (2 / 5))
         \<and> stroke_opacity (bars s' ! p) = Some (Num (2 / 5))"
    by (simp add: run el dim style_opacity_def transparentOpacity_def)
qed

theorem C10_witness:
  "([SelectionId 1] \<noteq> [] \<and> (1::nat) \<in> set [0, 1, 2] \<and> 1 < length (bars unidentified_chart)
      \<and> selectionId (datum (bars unidentified_chart ! 1)) = None)
   \<and> \<not> isSelectionIdInArray example_services (Some [SelectionId 1]) None
   \<and> \<not> isSelectionIdInArray example_services None (Some (SelectionId 1))
   \<and> (\<exists>s'. syncSelectionState example_services unidentified_chart (Some [0, 1, 2])
               (Some [SelectionId 1]) = Inr s'
         \<and> fill_opacity (bars s' ! 1) = Some (Num (2 / 5))
         \<and> stroke_opacity (bars s' ! 1) = Some (Num (2 / 5)))"
proof -
  have h: "[SelectionId 1] \<noteq> [] \<and> (1::nat) \<in> set [0, 1, 2] \<and> 1 < length (bars unidentified_chart)
      \<and> selectionId (datum (bars unidentified_chart ! 1)) = None"
    by code_simp
  show ?thesis
    using h
      C10_missing_identity_is_dimmed [where selectionIds = "Some [SelectionId 1]" and sid = None
        and sv = example_services and ids = "[SelectionId 1]" and p = 1 and sel = "[0, 1, 2]"
        and s = unidentified_chart]
      C10_missing_identity_is_dimmed [where selectionIds = None and sid = "Some (SelectionId 1)"
        and sv = example_services and ids = "[SelectionId 1]" and p = 1 and sel = "[0, 1, 2]"
        and s = unidentified_chart]
    by blast
qed

section \<open>Claims about the cumulative percentages\<close>

lemma sum_list_take_mono:
  fixes qs :: "rat list"
  assumes "\<forall>q\<in>set qs. 0 \<le> q" and "i \<le> j"
  shows "sum_list (take i qs) \<le> sum_list (take j qs)"
proof -
  have "take j qs = take i qs @ take (j - i) (drop i qs)"
    using assms(2) by (metis le_add_diff_inverse take_add)
  moreover have "0 \<le> sum_list (take (j - i) (drop i qs))"
    using assms(1) by (intro sum_list_nonneg) (auto dest!: in_set_takeD in_set_dropD)
  ultimately show ?thesis by simp
qed

lemma nonfinite_step:
  "js_add c (js_mul (js_div v (Num 0)) (Num 100)) = NaN
   \<or> js_add c (js_mul (js_div v (Num 0)) (Num 100)) = PosInf
   \<or> js_add c (js_mul (js_div v (Num 0)) (Num 100)) = NegInf"
  by (cases c; cases v) auto

lemma lineDataPoints_zero_total:
  "list_all (\<lambda>d. cumulative d = Some NaN \<or> cumulative d = Some PosInf \<or> cumulative d = Some NegInf)
     (map fst (lineDataPoints x b y (Num 0) c dps))"
proof (induction dps arbitrary: c)
  case Nil
  then show ?case by simp
next
  case (Cons d ds)
  show ?case
    using nonfinite_step [of c "to_number (dp_value d)"] Cons.IH
    by (simp add: Let_def del: js_add.simps js_mul.simps js_div.simps)
qed

lemma lineDataPoints_all_zero:
  "list_all (\<lambda>d. to_number (dp_value d) = Num 0) dps \<Longrightarrow> c = Num 0 \<or> c = NaN \<Longrightarrow>
   list_all (\<lambda>d. cumulative d = Some NaN) (map fst (lineDataPoints x b y (Num 0) c dps))"
proof (induction dps arbitrary: c)
  case Nil
  then show ?case by simp
next
  case (Cons d ds)
  from Cons.prems have c': "js_add c (js_mul (js_div (to_number (dp_value d)) (Num 0)) (Num 100)) = NaN"
    by auto
  from Cons.prems have "list_all (\<lambda>d. to_number (dp_value d) = Num 0) ds" by simp
  from Cons.IH [OF this, of NaN] show ?case
    by (simp add: Let_def c' del: js_add.simps js_mul.simps js_div.simps)
qed

lemma example_paths:
  "dataViews (example_options cats vals) = Some (Some (example_dataview cats vals) # [])"
  "dv_categorical (example_dataview cats vals) = Some (example_categorical cats vals)"
  "categories (example_categorical cats vals) = Some (example_category cats # [])"
  "cat_source (example_category cats) = Some ''Category''"
  "cat_value_columns (example_categorical cats vals) = Some (example_value vals # [])"
  by (simp_all add: example_options_def example_dataview_def example_categorical_def
      example_category_def)

lemma example_formats:
  "list_all (\<lambda>i. formatAt (example_value vals) i \<noteq> Inl TypeError) idxs"
  by (simp add: formatAt_def example_value_def list_all_iff)

lemma example_data_points:
  "createSelectorDataPoints (example_options cats vals) example_services =
   pushDataPoints example_services \<lparr>cat_source = Some ''Category'', cat_values = cats\<rparr>
     \<lparr>val_values = vals, val_objects = None\<rparr> [0 ..< max (length cats) (length vals)] []"
  by (simp add: createSelectorDataPoints_columns [OF example_paths]
      example_category_def example_value_def)

text \<open>
  Claim C1, as amended. If the total of the values is 0 and there is at least one data
  point, the update raises no exception, but no cumulative percentage is 0: each is NaN
  or an infinity, and all are NaN when every value is 0 or \<^verbatim>\<open>null\<close>. The division by
  the total is not guarded.
\<close>

theorem C1_zero_total_gives_no_finite_percent:
  assumes "createSelectorDataPoints options sv = Inr dps0"
    and "dps0 \<noteq> []"
    and "total_of dps0 = Num 0"
  shows "\<exists>s'. update sv options s = Inr s'
           \<and> length (barDataPoints s') = length dps0
           \<and> list_all (\<lambda>d. cumulative d = Some NaN \<or> cumulative d = Some PosInf
                            \<or> cumulative d = Some NegInf) (barDataPoints s')
           \<and> (list_all (\<lambda>d. to_number (dp_value d) = Num 0) dps0 \<longrightarrow>
                list_all (\<lambda>d. cumulative d = Some NaN) (barDataPoints s'))"
  using assms(3)
  by (simp add: update_unfold [OF assms(1,2)] rendered_barDataPoints
      lineDataPoints_zero_total lineDataPoints_all_zero)

theorem C1_witness:
  "map_sum id (\<lambda>dps0. (dps0 \<noteq> [], total_of dps0))
     (createSelectorDataPoints (example_options [Some ''A'', Some ''B''] [JNull, JNum (Num 0)])
        example_services)
     = Inr (True, Num 0)
   \<and> map_sum id (\<lambda>s'. map cumulative (barDataPoints s'))
       (update example_services (example_options [Some ''A'', Some ''B''] [JNull, JNum (Num 0)])
          (constructed (Num 210)))
     = Inr [Some NaN, Some NaN]
   \<and> map_sum id (\<lambda>s'. map cumulative (barDataPoints s'))
       (update example_services
          (example_options [Some ''A'', Some ''B''] [JNum (Num 5), JNum (Num (- 5))])
          (constructed (Num 210)))
     = Inr [Some PosInf, Some NaN]"
proof -
  let ?opts = "example_options [Some ''A'', Some ''B''] [JNull, JNum (Num 0)]"
  obtain D where h1: "createSelectorDataPoints ?opts example_services = Inr D"
    and h2: "D \<noteq> []" and h3: "total_of D = Num 0"
    and z: "list_all (\<lambda>d. to_number (dp_value d) = Num 0) D"
    by (simp add: example_data_points upt_rec [of _ "numeral _"] formatAt_def valueAt_def
        js_index_def total_of_def)
  have ev: ?thesis by code_simp
  from C1_zero_total_gives_no_finite_percent [OF h1 h2 h3, of "constructed (Num 210)"] z ev
  show ?thesis by blast
qed

text \<open>
  The claim as stated (every cumulative percentage is 0 when the total is 0) fails for
  the values 0, 0: both percentages are NaN.
\<close>

theorem C1_counterexample:
  "map_sum id (\<lambda>s'. (total_of (barDataPoints s'), map cumulative (barDataPoints s')))
     (update example_services
        (example_options [Some ''A'', Some ''B''] [JNum (Num 0), JNum (Num 0)])
        (constructed (Num 210)))
   = Inr (Num 0, [Some NaN, Some NaN])"
  by code_simp

text \<open>
  Claim C2, as amended. For data points with finite non-negative values whose total is
  positive and at most \<open>2 ^ 1023\<close>, so that no sum leaves the range of doubles, the
  update succeeds, the cumulative percentage at index \<open>i\<close> is the sum of the values at
  the indices up to \<open>i\<close>, divided by the total, times 100 (up to the rounding of
  doubles, which the exact arithmetic here leaves out); the percentages are
  non-decreasing in index order and the last one is 100. The values 10, 30, 60 give
  10, 40, 100.
\<close>

theorem C2_cumulative_percent:
  assumes "createSelectorDataPoints options sv = Inr dps0"
    and "map dp_value dps0 = map (\<lambda>q. JNum (Num q)) qs"
    and "\<forall>q\<in>set qs. 0 \<le> q"
    and "0 < sum_list qs"
    and "sum_list qs \<le> 2 ^ 1023"
  shows "total_of dps0 = Num (sum_list qs) \<and>
         (\<exists>s'. update sv options s = Inr s'
            \<and> map cumulative (barDataPoints s') =
                map (\<lambda>i. Some (Num (sum_list (take (Suc i) qs) / sum_list qs * 100)))
                  [0 ..< length qs]
            \<and> (\<forall>i j. i \<le> j \<and> j < length qs \<longrightarrow>
                  (\<exists>a b. cumulative (barDataPoints s' ! i) = Some (Num a)
                       \<and> cumulative (barDataPoints s' ! j) = Some (Num b) \<and> a \<le> b))
            \<and> cumulative (last (barDataPoints s')) = Some (Num 100))"
proof -
  let ?t = "sum_list qs"
  let ?f = "\<lambda>i. sum_list (take (Suc i) qs) / ?t * 100"
  have cells: "map dp_value dps0 = map cell_of (map Some qs)"
    using assms(2) by (simp add: comp_def)
  have mag: "map magnitude (map Some qs) = qs" by (induction qs) simp_all
  have len: "length dps0 = length qs"
    using assms(2) by (metis length_map)
  have qs_ne: "qs \<noteq> []" using assms(4) by auto
  then have ne: "dps0 \<noteq> []" using len by auto
  have tot: "total_of dps0 = Num ?t"
    using total_of_cells [OF cells, of 0, unfolded mag] by (simp add: total_of_def)
  let ?s' = "rendered sv options dps0 s"
  have upd: "update sv options s = Inr ?s'"
    by (rule update_unfold [OF assms(1) ne])
  have t0: "?t \<noteq> 0" using assms(4) by simp
  have cum: "map cumulative (barDataPoints ?s') = map (\<lambda>i. Some (Num (?f i))) [0 ..< length qs]"
    using cumulative_cells [OF cells t0, of _ _ _ 0, unfolded mag]
    by (simp add: rendered_barDataPoints tot)
  have lens: "length (barDataPoints ?s') = length qs"
    by (simp add: rendered_barDataPoints len)
  have at: "\<And>i. i < length qs \<Longrightarrow> cumulative (barDataPoints ?s' ! i) = Some (Num (?f i))"
  proof -
    fix i assume i: "i < length qs"
    have "cumulative (barDataPoints ?s' ! i) = map cumulative (barDataPoints ?s') ! i"
      using i lens by simp
    also have "\<dots> = Some (Num (?f i))" using i by (simp only: cum) simp
    finally show "cumulative (barDataPoints ?s' ! i) = Some (Num (?f i))" .
  qed
  have mono: "\<forall>i j. i \<le> j \<and> j < length qs \<longrightarrow>
                  (\<exists>a b. cumulative (barDataPoints ?s' ! i) = Some (Num a)
                       \<and> cumulative (barDataPoints ?s' ! j) = Some (Num b) \<and> a \<le> b)"
  proof (intro allI impI)
    fix i j assume ij: "i \<le> j \<and> j < length qs"
    then have "sum_list (take (Suc i) qs) \<le> sum_list (take (Suc j) qs)"
      by (intro sum_list_take_mono [OF assms(3)]) simp
    then have "?f i \<le> ?f j"
      using assms(4) by (simp add: divide_right_mono)
    with ij show "\<exists>a b. cumulative (barDataPoints ?s' ! i) = Some (Num a)
                       \<and> cumulative (barDataPoints ?s' ! j) = Some (Num b) \<and> a \<le> b"
      by (simp add: at)
  qed
  have ne': "barDataPoints ?s' \<noteq> []" using lens qs_ne by auto
  have "cumulative (last (barDataPoints ?s')) = cumulative (barDataPoints ?s' ! (length qs - 1))"
    using ne' lens by (simp add: last_conv_nth)
  also have "\<dots> = Some (Num (?f (length qs - 1)))"
    using qs_ne by (intro at) simp
  also have "?f (length qs - 1) = 100"
    using qs_ne t0 by simp
  finally have last: "cumulative (last (barDataPoints ?s')) = Some (Num 100)" .
  show ?thesis
    using tot upd cum mono last by blast
qed

theorem C2_witness:
  "map_sum id (map dp_value)
     (createSelectorDataPoints
        (example_options [Some ''A'', Some ''B'', Some ''C'']
           [JNum (Num 10), JNum (Num 30), JNum (Num 60)]) example_services)
     = Inr (map (\<lambda>q. JNum (Num q)) [10, 30, 60])
   \<and> list_all (\<lambda>q. 0 \<le> q) [10, 30, 60 :: rat]
   \<and> (0 :: rat) < sum_list [10, 30, 60]
   \<and> sum_list [10, 30, 60 :: rat] \<le> 2 ^ 1023
   \<and> map_sum id (\<lambda>s'. map cumulative (barDataPoints s'))
       (update example_services
          (example_options [Some ''A'', Some ''B'', Some ''C'']
             [JNum (Num 10), JNum (Num 30), JNum (Num 60)]) (constructed (Num 210)))
     = Inr [Some (Num 10), Some (Num 40), Some (Num 100)]"
proof -
  let ?opts = "example_options [Some ''A'', Some ''B'', Some ''C'']
                 [JNum (Num 10), JNum (Num 30), JNum (Num 60)]"
  obtain D where h1: "createSelectorDataPoints ?opts example_services = Inr D"
    and h2: "map dp_value D = map (\<lambda>q. JNum (Num q)) [10, 30, 60]"
    by (simp add: example_data_points upt_rec [of _ "numeral _"] formatAt_def valueAt_def
        js_index_def)
  have h3: "\<forall>q\<in>set [10, 30, 60 :: rat]. 0 \<le> q" by simp
  have h4: "(0 :: rat) < sum_list [10, 30, 60]" by simp
  have h5: "sum_list [10, 30, 60 :: rat] \<le> 2 ^ 1023" by simp
  from C2_cumulative_percent [OF h1 h2 h3 h4 h5, of "constructed (Num 210)"]
  obtain s' where u: "update example_services ?opts (constructed (Num 210)) = Inr s'"
    and c: "map cumulative (barDataPoints s') =
            map (\<lambda>i. Some (Num (sum_list (take (Suc i) [10, 30, 60]) / sum_list [10, 30, 60] * 100)))
              [0 ..< length [10, 30, 60 :: rat]]"
    by blast
  have "map cumulative (barDataPoints s') = [Some (Num 10), Some (Num 40), Some (Num 100)]"
    unfolding c by (simp add: upt_rec [of _ "numeral _"])
  then show ?thesis
    using h1 h2 h5 by (simp add: u)
qed

text \<open>
  The claim as stated (for every sequence of non-negative numeric values with a positive
  total) fails for the values Infinity, 1: they are non-negative and their total,
  Infinity, is positive, but both cumulative percentages are NaN, so the last one is
  not 100.
\<close>

theorem C2_counterexample:
  "map_sum id (\<lambda>s'. (map dp_value (barDataPoints s'), total_of (barDataPoints s'),
                      map cumulative (barDataPoints s')))
     (update example_services
        (example_options [Some ''A'', Some ''B''] [JNum PosInf, JNum (Num 1)])
        (constructed (Num 210)))
   = Inr ([JNum PosInf, JNum (Num 1)], PosInf, [Some NaN, Some NaN])"
  by code_simp

section \<open>Claims about absent and malformed input\<close>

text \<open>
  Claim C3 says that an update whose input yields no data points completes without
  throwing. It does not: with an empty \<^verbatim>\<open>dataViews\<close> array the builder returns the
  empty list and the update then throws on \<^verbatim>\<open>this.barDataPoints[0].category\<close>; with
  \<^verbatim>\<open>dataViews\<close> missing it throws on \<^verbatim>\<open>options.dataViews[0]\<close>.
\<close>

theorem C3_empty_data_update_throws:
  "createSelectorDataPoints
     \<lparr>dataViews = Some [], viewport = \<lparr>width = Num 300, height = Num 205\<rparr>, formatMode = False\<rparr>
     example_services = Inr []
   \<and> update example_services
       \<lparr>dataViews = Some [], viewport = \<lparr>width = Num 300, height = Num 205\<rparr>, formatMode = False\<rparr>
       (constructed (Num 210)) = Inl TypeError
   \<and> update example_services
       \<lparr>dataViews = None, viewport = \<lparr>width = Num 300, height = Num 205\<rparr>, formatMode = False\<rparr>
       (constructed (Num 210)) = Inl TypeError"
  by (simp add: update_empty createSelectorDataPoints_def js_index_def)

text \<open>
  Claim C5 says that the builder returns the empty list, without an error, when a
  categories list is present but holds no category column. It does not:
  \<^verbatim>\<open>categories[0].source\<close> throws on the empty array.
\<close>

theorem C5_empty_categories_list_throws:
  "createSelectorDataPoints
     \<lparr>dataViews = Some [Some \<lparr>dv_categorical = Some
          \<lparr>categories = Some [],
           cat_value_columns = Some [\<lparr>val_values = [JNum (Num 10)], val_objects = None\<rparr>]\<rparr>,
        dv_metadata_objects = None\<rparr>],
      viewport = \<lparr>width = Num 300, height = Num 205\<rparr>,
      formatMode = False\<rparr>
     example_services = Inl TypeError"
  by (simp add: createSelectorDataPoints_def js_index_def)

section \<open>Claims about rendering\<close>

lemma rendered_bars_length: "length (bars (rendered sv options dps0 s)) = length dps0"
  by (simp add: rendered_def Let_def)

text \<open>
  Claim C7. An update that succeeds, repeated with the same input and the same
  collaborators, succeeds again and leaves every element and attribute as it was: the
  same bars (as many as data points, none added), markers, line and axes. Only the
  field that holds the update selection of the join changes, from the bars that
  existed before the first update to all bars.
\<close>

theorem C7_update_idempotent:
  assumes "update sv options s = Inr s1"
  shows "\<exists>s2. update sv options s1 = Inr s2
           \<and> s2 = s1\<lparr>barSelection := Some [0 ..< length (bars s1)]\<rparr>
           \<and> bars s2 = bars s1 \<and> length (bars s2) = length (barDataPoints s2)
           \<and> circles s2 = circles s1 \<and> line_d s2 = line_d s1
           \<and> xAxis s2 = xAxis s1 \<and> yAxisLeft s2 = yAxisLeft s1 \<and> yAxisRight s2 = yAxisRight s1
           \<and> svg_width s2 = svg_width s1 \<and> svg_height s2 = svg_height s1"
proof -
  from update_InrD [OF assms] obtain dps0 where
    c: "createSelectorDataPoints options sv = Inr dps0" and ne: "dps0 \<noteq> []"
    and s1: "s1 = rendered sv options dps0 s"
    by blast
  have len: "length (bars s1) = length dps0"
    by (simp add: s1 rendered_bars_length)
  have len': "length (barDataPoints s1) = length dps0"
    by (simp add: s1 rendered_barDataPoints)
  have "update sv options s1 = Inr (rendered sv options dps0 s1)"
    by (rule update_unfold [OF c ne])
  also have "rendered sv options dps0 s1 = s1\<lparr>barSelection := Some [0 ..< length (bars s1)]\<rparr>"
    unfolding len unfolding s1 by (rule rendered_twice)
  finally show ?thesis
    by (simp add: len len')
qed

theorem C7_witness:
  "update example_services
     (example_options [Some ''A'', Some ''B'', Some ''C'']
        [JNum (Num 10), JNum (Num 30), JNum (Num 60)]) (constructed (Num 210))
     = Inr example_chart
   \<and> update example_services
     (example_options [Some ''A'', Some ''B'', Some ''C'']
        [JNum (Num 10), JNum (Num 30), JNum (Num 60)]) example_chart
     = Inr (example_chart\<lparr>barSelection := Some [0, 1, 2]\<rparr>)
   \<and> length (bars example_chart) = 3 \<and> length (circles example_chart) = 3"
proof -
  let ?opts = "example_options [Some ''A'', Some ''B'', Some ''C'']
                 [JNum (Num 10), JNum (Num 30), JNum (Num 60)]"
  obtain D where h1: "createSelectorDataPoints ?opts example_services = Inr D"
    and h2: "D \<noteq> []"
    by (simp add: example_data_points upt_rec [of _ "numeral _"] formatAt_def valueAt_def
        js_index_def)
  have first: "update example_services ?opts (constructed (Num 210)) = Inr example_chart"
    by (simp add: example_chart_def update_unfold [OF h1 h2])
  have n: "length (bars example_chart) = 3 \<and> length (circles example_chart) = 3"
    by code_simp
  have upt: "[0 ..< 3] = [0, 1, 2 :: nat]"
    by code_simp
  from C7_update_idempotent [OF first] first n show ?thesis
    by (simp add: upt)
qed

section \<open>Claims about the built sequence\<close>

lemma createSelectorDataPoints_result:
  assumes "dataViews options = Some (Some dv # dvs)"
    and "dv_categorical dv = Some cl"
    and "categories cl = Some (cat # cats)"
    and "cat_source cat = Some src"
    and "cat_value_columns cl = Some (dataValue # vals)"
    and "list_all (\<lambda>i. formatAt dataValue i \<noteq> Inl TypeError)
           [0 ..< max (length (cat_values cat)) (length (val_values dataValue))]"
  shows "\<exists>dps0. createSelectorDataPoints options sv = Inr dps0
           \<and> length dps0 = max (length (cat_values cat)) (length (val_values dataValue))
           \<and> map index dps0 = [0 ..< length dps0]
           \<and> map dp_value dps0 = map (valueAt dataValue) [0 ..< length dps0]
           \<and> map category dps0
               = map (\<lambda>i. template_string (js_index (cat_values cat) i)) [0 ..< length dps0]"
proof -
  from pushDataPoints_Inr [OF assms(6), of sv cat "[]"] obtain new where
    "pushDataPoints sv cat dataValue
       [0 ..< max (length (cat_values cat)) (length (val_values dataValue))] [] = Inr ([] @ new)"
    "length new = length [0 ..< max (length (cat_values cat)) (length (val_values dataValue))]"
    "map index new = [0 ..< max (length (cat_values cat)) (length (val_values dataValue))]"
    "map dp_value new = map (valueAt dataValue)
       [0 ..< max (length (cat_values cat)) (length (val_values dataValue))]"
    "map category new = map (\<lambda>i. template_string (js_index (cat_values cat) i))
       [0 ..< max (length (cat_values cat)) (length (val_values dataValue))]"
    by blast
  then show ?thesis
    by (simp add: createSelectorDataPoints_columns [OF assms(1-5)])
qed

lemma map_valueAt_cells:
  "length (val_values dataValue) = n \<Longrightarrow>
   map (valueAt dataValue) [0 ..< n] = val_values dataValue"
  by (rule nth_equalityI) (simp_all add: valueAt_def js_index_def)

text \<open>
  Claim C4, as amended. For a category column of length \<open>m\<close> and a value column of
  length \<open>n\<close> whose format entries can be read, the builder returns exactly
  \<open>max m n\<close> data points in index order; past the end of the shorter column the
  category is the text \<^verbatim>\<open>undefined\<close> and the value is \<^verbatim>\<open>undefined\<close>. A value that is
  \<^verbatim>\<open>null\<close> counts as 0 in the total and in the cumulative percentages.
\<close>

theorem C4_padding_and_null_values:
  assumes "dataViews options = Some (Some dv # dvs)"
    and "dv_categorical dv = Some cl"
    and "categories cl = Some (cat # cats)"
    and "cat_source cat = Some src"
    and "cat_value_columns cl = Some (dataValue # vals)"
    and "list_all (\<lambda>i. formatAt dataValue i \<noteq> Inl TypeError)
           [0 ..< max (length (cat_values cat)) (length (val_values dataValue))]"
  shows "\<exists>dps0. createSelectorDataPoints options sv = Inr dps0
           \<and> length dps0 = max (length (cat_values cat)) (length (val_values dataValue))
           \<and> (\<forall>i < length dps0.
                 index (dps0 ! i) = i
                 \<and> category (dps0 ! i) =
                     (if i < length (cat_values cat)
                      then (case cat_values cat ! i of None \<Rightarrow> ''null'' | Some t \<Rightarrow> t)
                      else ''undefined'')
                 \<and> dp_value (dps0 ! i) =
                     (if i < length (val_values dataValue) then val_values dataValue ! i
                      else JUndefined))
           \<and> (\<forall>rs. val_values dataValue = map cell_of rs
                      \<and> length (cat_values cat) \<le> length rs \<longrightarrow>
                 total_of dps0 = Num (sum_list (map magnitude rs))
                 \<and> (sum_list (map magnitude rs) \<noteq> 0 \<longrightarrow>
                      (\<exists>s'. update sv options s = Inr s'
                         \<and> map cumulative (barDataPoints s') =
                             map (\<lambda>i. Some (Num (sum_list (take (Suc i) (map magnitude rs))
                                                  / sum_list (map magnitude rs) * 100)))
                               [0 ..< length rs])))"
proof -
  let ?m = "length (cat_values cat)" and ?n = "length (val_values dataValue)"
  from createSelectorDataPoints_result [OF assms, of sv] obtain dps0 where
    c: "createSelectorDataPoints options sv = Inr dps0"
    and len: "length dps0 = max ?m ?n"
    and idx: "map index dps0 = [0 ..< length dps0]"
    and vals: "map dp_value dps0 = map (valueAt dataValue) [0 ..< length dps0]"
    and cats: "map category dps0
               = map (\<lambda>i. template_string (js_index (cat_values cat) i)) [0 ..< length dps0]"
    by blast
  have each: "\<forall>i < length dps0.
                 index (dps0 ! i) = i
                 \<and> category (dps0 ! i) =
                     (if i < ?m then (case cat_values cat ! i of None \<Rightarrow> ''null'' | Some t \<Rightarrow> t)
                      else ''undefined'')
                 \<and> dp_value (dps0 ! i) = (if i < ?n then val_values dataValue ! i else JUndefined)"
  proof (intro allI impI)
    fix i assume i: "i < length dps0"
    have "index (dps0 ! i) = map index dps0 ! i" using i by simp
    also have "\<dots> = i" using i by (simp only: idx) simp
    finally have 1: "index (dps0 ! i) = i" .
    have "category (dps0 ! i) = map category dps0 ! i" using i by simp
    also have "\<dots> = template_string (js_index (cat_values cat) i)"
      using i by (simp only: cats) simp
    also have "\<dots> = (if i < ?m then (case cat_values cat ! i of None \<Rightarrow> ''null'' | Some t \<Rightarrow> t)
                      else ''undefined'')"
      by (simp add: js_index_def split: option.splits)
    finally have 2: "category (dps0 ! i) =
        (if i < ?m then (case cat_values cat ! i of None \<Rightarrow> ''null'' | Some t \<Rightarrow> t)
         else ''undefined'')" .
    have "dp_value (dps0 ! i) = map dp_value dps0 ! i" using i by simp
    also have "\<dots> = valueAt dataValue i" using i by (simp only: vals) simp
    also have "\<dots> = (if i < ?n then val_values dataValue ! i else JUndefined)"
      by (simp add: valueAt_def js_index_def)
    finally have 3: "dp_value (dps0 ! i)
                     = (if i < ?n then val_values dataValue ! i else JUndefined)" .
    from 1 2 3 show "index (dps0 ! i) = i
                 \<and> category (dps0 ! i) =
                     (if i < ?m then (case cat_values cat ! i of None \<Rightarrow> ''null'' | Some t \<Rightarrow> t)
                      else ''undefined'')
                 \<and> dp_value (dps0 ! i) = (if i < ?n then val_values dataValue ! i else JUndefined)"
      by blast
  qed
  have nulls: "\<forall>rs. val_values dataValue = map cell_of rs \<and> ?m \<le> length rs \<longrightarrow>
                 total_of dps0 = Num (sum_list (map magnitude rs))
                 \<and> (sum_list (map magnitude rs) \<noteq> 0 \<longrightarrow>
                      (\<exists>s'. update sv options s = Inr s'
                         \<and> map cumulative (barDataPoints s') =
                             map (\<lambda>i. Some (Num (sum_list (take (Suc i) (map magnitude rs))
                                                  / sum_list (map magnitude rs) * 100)))
                               [0 ..< length rs]))"
  proof (intro allI impI)
    fix rs assume a: "val_values dataValue = map cell_of rs \<and> ?m \<le> length rs"
    then have n: "?n = length rs" by simp
    with a len have len': "length dps0 = ?n" by simp
    have cells: "map dp_value dps0 = map cell_of rs"
      using vals a by (simp add: len' map_valueAt_cells)
    have tot: "total_of dps0 = Num (sum_list (map magnitude rs))"
      using total_of_cells [OF cells, of 0] by (simp add: total_of_def)
    have pct: "\<exists>s'. update sv options s = Inr s'
                 \<and> map cumulative (barDataPoints s') =
                     map (\<lambda>i. Some (Num (sum_list (take (Suc i) (map magnitude rs))
                                          / sum_list (map magnitude rs) * 100)))
                       [0 ..< length rs]"
      if t0: "sum_list (map magnitude rs) \<noteq> 0"
    proof -
      from t0 have "rs \<noteq> []" by auto
      with len' n have ne: "dps0 \<noteq> []" by auto
      show ?thesis
        using cumulative_cells [OF cells t0, of _ _ _ 0]
        by (simp add: update_unfold [OF c ne] rendered_barDataPoints tot)
    qed
    from tot pct show "total_of dps0 = Num (sum_list (map magnitude rs))
                 \<and> (sum_list (map magnitude rs) \<noteq> 0 \<longrightarrow>
                      (\<exists>s'. update sv options s = Inr s'
                         \<and> map cumulative (barDataPoints s') =
                             map (\<lambda>i. Some (Num (sum_list (take (Suc i) (map magnitude rs))
                                                  / sum_list (map magnitude rs) * 100)))
                               [0 ..< length rs]))"
      by blast
  qed
  from c len each nulls show ?thesis by blast
qed

theorem C4_witness:
  "map_sum id (\<lambda>d. (length d, map index d, map category d, map dp_value d))
     (createSelectorDataPoints
        (example_options [Some ''A'', Some ''B'', Some ''C''] [JNum (Num 10), JNum (Num 30)])
        example_services)
     = Inr (3, [0, 1, 2], [''A'', ''B'', ''C''], [JNum (Num 10), JNum (Num 30), JUndefined])
   \<and> map_sum id (\<lambda>d. (map category d, map dp_value d, total_of d))
       (createSelectorDataPoints (example_options [Some ''A''] (map cell_of [None, Some 40]))
          example_services)
     = Inr ([''A'', ''undefined''], [JNull, JNum (Num 40)], Num 40)
   \<and> map_sum id (\<lambda>s'. map cumulative (barDataPoints s'))
       (update example_services (example_options [Some ''A''] (map cell_of [None, Some 40]))
          (constructed (Num 210)))
     = Inr [Some (Num 0), Some (Num 100)]"
proof -
  have ev: ?thesis by code_simp
  from C4_padding_and_null_values [OF example_paths example_formats,
         of "[Some ''A'', Some ''B'', Some ''C'']" "[JNum (Num 10), JNum (Num 30)]"
            example_services "constructed (Num 210)"]
       C4_padding_and_null_values [OF example_paths example_formats,
         of "[Some ''A'']" "map cell_of [None, Some 40]"
            example_services "constructed (Num 210)"]
       ev
  show ?thesis by blast
qed

text \<open>
  The claim as stated (a padded value counts as 0) fails for three categories and the
  values 10, 30: the third value is \<^verbatim>\<open>undefined\<close>, the total is NaN and so is every
  cumulative percentage, where the claim gives the total 40.
\<close>

theorem C4_counterexample:
  "map_sum id (\<lambda>s'. (map dp_value (barDataPoints s'), total_of (barDataPoints s'),
                      map cumulative (barDataPoints s')))
     (update example_services
        (example_options [Some ''A'', Some ''B'', Some ''C''] [JNum (Num 10), JNum (Num 30)])
        (constructed (Num 210)))
   = Inr ([JNum (Num 10), JNum (Num 30), JUndefined], NaN, [Some NaN, Some NaN, Some NaN])"
  by code_simp

lemma total_of_cong: "map dp_value a = map dp_value b \<Longrightarrow> total_of a = total_of b"
proof -
  have "map dp_value a = map dp_value b \<Longrightarrow>
        foldl (\<lambda>tot v. js_add tot (to_number (dp_value v))) t a
        = foldl (\<lambda>tot v. js_add tot (to_number (dp_value v))) t b" for t
  proof (induction a arbitrary: b t)
    case Nil
    then show ?case by simp
  next
    case (Cons x xs)
    then obtain y ys where "b = y # ys" by (cases b) auto
    with Cons show ?case by simp
  qed
  then show "map dp_value a = map dp_value b \<Longrightarrow> total_of a = total_of b"
    by (simp add: total_of_def)
qed

lemma cumulative_foldl_cong:
  "map dp_value a = map dp_value b \<Longrightarrow>
   foldl (\<lambda>c el. js_add c (js_mul (js_div (to_number (dp_value el)) t) (Num 100))) c0 a
   = foldl (\<lambda>c el. js_add c (js_mul (js_div (to_number (dp_value el)) t) (Num 100))) c0 b"
proof (induction a arbitrary: b c0)
  case Nil
  then show ?case by simp
next
  case (Cons x xs)
  then obtain y ys where "b = y # ys" by (cases b) auto
  with Cons show ?case by (simp del: js_add.simps js_mul.simps js_div.simps)
qed

lemma sync_element_keeps:
  "datum (sync_element sv fs ids el) = datum el"
  "attr_x (sync_element sv fs ids el) = attr_x el"
  by (simp_all add: sync_element_def selected_opacity_def style_opacity_def split: option.splits)

lemma set_bar_attributes_x:
  "datum (set_bar_attributes fs fm x bw y h el) = datum el"
  "attr_x (set_bar_attributes fs fm x bw y h el) = Some (x (category (datum el)))"
  by (simp_all add: set_bar_attributes_def Let_def)

lemma rendered_bar_nth:
  assumes "i < length dps0"
  shows "datum (bars (rendered sv options dps0 s) ! i) = barDataPoints (rendered sv options dps0 s) ! i"
    and "attr_x (bars (rendered sv options dps0 s) ! i)
         = Some (scaleBand sv (map category (barDataPoints (rendered sv options dps0 s)))
                   (width (viewport options))
                   (category (barDataPoints (rendered sv options dps0 s) ! i)))"
proof -
  have cats: "map category (barDataPoints (rendered sv options dps0 s)) = map category dps0"
    using lineDataPoints_fields by (simp add: rendered_barDataPoints)
  show "datum (bars (rendered sv options dps0 s) ! i) = barDataPoints (rendered sv options dps0 s) ! i"
    using assms by (simp add: rendered_def Let_def sync_element_keeps set_bar_attributes_x new_rect_def)
  show "attr_x (bars (rendered sv options dps0 s) ! i)
         = Some (scaleBand sv (map category (barDataPoints (rendered sv options dps0 s)))
                   (width (viewport options))
                   (category (barDataPoints (rendered sv options dps0 s) ! i)))"
    unfolding cats
    using assms by (simp add: rendered_def Let_def sync_element_keeps set_bar_attributes_x new_rect_def)
qed

text \<open>
  The reference band scale places the \<open>k\<close>-th of its distinct labels at its start plus
  \<open>k\<close> steps, and its step is not negative when the width is not.
\<close>

lemma index_of_nth:
  "distinct xs \<Longrightarrow> k < length xs \<Longrightarrow> index_of (xs ! k) xs = Some k"
proof (induction xs arbitrary: k)
  case Nil
  then show ?case by simp
next
  case (Cons x xs)
  show ?case
  proof (cases k)
    case 0
    then show ?thesis by simp
  next
    case (Suc m)
    with Cons.prems have "m < length xs" "xs ! m \<noteq> x" "distinct xs" by auto
    with Cons.IH [of m] show ?thesis by (simp add: Suc)
  qed
qed

lemma ordinal_domain_distinct: "distinct labels \<Longrightarrow> ordinal_domain labels = labels"
  by (simp add: ordinal_domain_def distinct_remdups_id)

lemma d3_band_step_nonneg: "0 \<le> d3_band_step labels w"
proof -
  have "0 \<le> \<bar>w\<bar> / max 1 (of_nat (length (ordinal_domain labels)) - 1 / 5 + 2 * (1 / 5))"
    by (intro divide_nonneg_pos) simp_all
  then show ?thesis by (simp add: d3_band_step_def)
qed

lemma d3_scaleBand_layout:
  assumes "distinct labels" and "0 \<le> w" and "k < length labels"
  shows "d3_scaleBand labels (Num w) (labels ! k)
         = Num (d3_band_start labels w + d3_band_step labels w * of_nat k)"
  using assms by (simp add: ordinal_domain_distinct index_of_nth)

text \<open>
  Claim C8, as amended. In the sequence an update builds, \<open>index\<close> is the position of
  the point in input order (so it is unique), the categories are the input categories
  in input order, whatever their values and also when labels repeat, and the cumulative
  percentage of a point is the running sum over the points up to it in index order.
  The \<open>i\<close>-th bar is bound to the \<open>i\<close>-th data point, and its x position is what the
  band scale over the labels gives for the point's label. So data points that share a
  label are drawn at the same x; and when the labels are distinct and the band scale
  places the \<open>k\<close>-th label of its domain at its start plus \<open>k\<close> steps, with a step
  that is not negative, the x positions of the bars are non-decreasing in index, and
  increasing when the step is positive.
\<close>

theorem C8_index_order_and_band_position:
  assumes "dataViews options = Some (Some dv # dvs)"
    and "dv_categorical dv = Some cl"
    and "categories cl = Some (cat # cats)"
    and "cat_source cat = Some src"
    and "cat_value_columns cl = Some (dataValue # vals)"
    and "list_all (\<lambda>i. formatAt dataValue i \<noteq> Inl TypeError)
           [0 ..< max (length (cat_values cat)) (length (val_values dataValue))]"
    and "0 < max (length (cat_values cat)) (length (val_values dataValue))"
  shows "\<exists>s'. update sv options s = Inr s'
           \<and> length (barDataPoints s') = max (length (cat_values cat)) (length (val_values dataValue))
           \<and> length (bars s') = length (barDataPoints s')
           \<and> map index (barDataPoints s') = [0 ..< length (barDataPoints s')]
           \<and> (\<forall>i < length (barDataPoints s').
                 category (barDataPoints s' ! i) = template_string (js_index (cat_values cat) i)
                 \<and> dp_value (barDataPoints s' ! i) = valueAt dataValue i
                 \<and> cumulative (barDataPoints s' ! i) =
                     Some (cumulative_after (total_of (barDataPoints s'))
                             (take (Suc i) (barDataPoints s')))
                 \<and> datum (bars s' ! i) = barDataPoints s' ! i
                 \<and> attr_x (bars s' ! i) =
                     Some (scaleBand sv (map category (barDataPoints s'))
                             (width (viewport options)) (category (barDataPoints s' ! i))))
           \<and> (\<forall>i < length (barDataPoints s'). \<forall>j < length (barDataPoints s').
                 category (barDataPoints s' ! i) = category (barDataPoints s' ! j) \<longrightarrow>
                 attr_x (bars s' ! i) = attr_x (bars s' ! j))
           \<and> (\<forall>start step.
                 0 \<le> step \<and> distinct (map category (barDataPoints s'))
                 \<and> (\<forall>k < length (barDataPoints s').
                        scaleBand sv (map category (barDataPoints s'))
                          (width (viewport options)) (category (barDataPoints s' ! k))
                        = Num (start + step * of_nat k)) \<longrightarrow>
                 (\<forall>i j. i \<le> j \<and> j < length (barDataPoints s') \<longrightarrow>
                    (\<exists>a b. attr_x (bars s' ! i) = Some (Num a)
                         \<and> attr_x (bars s' ! j) = Some (Num b)
                         \<and> a \<le> b \<and> (i < j \<and> 0 < step \<longrightarrow> a < b))))"
proof -
  from createSelectorDataPoints_result [OF assms(1-6), of sv] obtain dps0 where
    c: "createSelectorDataPoints options sv = Inr dps0"
    and len: "length dps0 = max (length (cat_values cat)) (length (val_values dataValue))"
    and idx: "map index dps0 = [0 ..< length dps0]"
    and vals: "map dp_value dps0 = map (valueAt dataValue) [0 ..< length dps0]"
    and cats: "map category dps0
               = map (\<lambda>i. template_string (js_index (cat_values cat) i)) [0 ..< length dps0]"
    by blast
  from len assms(7) have ne: "dps0 \<noteq> []" by auto
  let ?s' = "rendered sv options dps0 s"
  let ?bps = "barDataPoints ?s'"
  have upd: "update sv options s = Inr ?s'"
    by (rule update_unfold [OF c ne])
  have blen: "length ?bps = length dps0"
    by (simp add: rendered_barDataPoints)
  have bidx: "map index ?bps = map index dps0"
    and bcat: "map category ?bps = map category dps0"
    and bval: "map dp_value ?bps = map dp_value dps0"
    using lineDataPoints_fields by (simp_all add: rendered_barDataPoints)
  have btot: "total_of ?bps = total_of dps0"
    by (rule total_of_cong [OF bval])
  have each: "\<forall>i < length ?bps.
                 category (?bps ! i) = template_string (js_index (cat_values cat) i)
                 \<and> dp_value (?bps ! i) = valueAt dataValue i
                 \<and> cumulative (?bps ! i) =
                     Some (cumulative_after (total_of ?bps) (take (Suc i) ?bps))
                 \<and> datum (bars ?s' ! i) = ?bps ! i
                 \<and> attr_x (bars ?s' ! i) =
                     Some (scaleBand sv (map category ?bps)
                             (width (viewport options)) (category (?bps ! i)))"
  proof (intro allI impI)
    fix i assume "i < length ?bps"
    then have i: "i < length dps0" by (simp add: blen)
    have "category (?bps ! i) = map category ?bps ! i" using i blen by simp
    also have "\<dots> = template_string (js_index (cat_values cat) i)"
      using i by (simp only: bcat cats) simp
    finally have 1: "category (?bps ! i) = template_string (js_index (cat_values cat) i)" .
    have "dp_value (?bps ! i) = map dp_value ?bps ! i" using i blen by simp
    also have "\<dots> = valueAt dataValue i"
      using i by (simp only: bval vals) simp
    finally have 2: "dp_value (?bps ! i) = valueAt dataValue i" .
    have eq: "map dp_value (take (Suc i) dps0) = map dp_value (take (Suc i) ?bps)"
      by (simp only: take_map [symmetric] bval)
    have "cumulative (?bps ! i) =
          cumulative (fst (lineDataPoints
            (scaleBand sv (map category dps0) (width (viewport options)))
            (bandwidth sv (map category dps0) (width (viewport options)))
            (scaleLinear sv (Num 0, Num 100)
               (js_sub (height (viewport options)) margins_bottom, margins_top))
            (total_of dps0) (Num 0) dps0 ! i))"
      using i by (simp add: rendered_barDataPoints)
    also have "\<dots> = Some (foldl (\<lambda>c el. js_add c
                  (js_mul (js_div (to_number (dp_value el)) (total_of dps0)) (Num 100)))
                (Num 0) (take (Suc i) dps0))"
      by (rule lineDataPoints_cumulative_foldl [OF i])
    also have "\<dots> = Some (foldl (\<lambda>c el. js_add c
                  (js_mul (js_div (to_number (dp_value el)) (total_of dps0)) (Num 100)))
                (Num 0) (take (Suc i) ?bps))"
      by (simp only: cumulative_foldl_cong [OF eq])
    also have "\<dots> = Some (cumulative_after (total_of ?bps) (take (Suc i) ?bps))"
      by (simp only: cumulative_after_def btot)
    finally have 3: "cumulative (?bps ! i)
                     = Some (cumulative_after (total_of ?bps) (take (Suc i) ?bps))" .
    from 1 2 3 rendered_bar_nth [OF i, of sv options s]
    show "category (?bps ! i) = template_string (js_index (cat_values cat) i)
                 \<and> dp_value (?bps ! i) = valueAt dataValue i
                 \<and> cumulative (?bps ! i) =
                     Some (cumulative_after (total_of ?bps) (take (Suc i) ?bps))
                 \<and> datum (bars ?s' ! i) = ?bps ! i
                 \<and> attr_x (bars ?s' ! i) =
                     Some (scaleBand sv (map category ?bps)
                             (width (viewport options)) (category (?bps ! i)))"
      by blast
  qed
  have same: "\<forall>i < length ?bps. \<forall>j < length ?bps.
                 category (?bps ! i) = category (?bps ! j) \<longrightarrow>
                 attr_x (bars ?s' ! i) = attr_x (bars ?s' ! j)"
    using each by simp
  have order: "\<forall>start step.
                 0 \<le> step \<and> distinct (map category ?bps)
                 \<and> (\<forall>k < length ?bps.
                        scaleBand sv (map category ?bps)
                          (width (viewport options)) (category (?bps ! k))
                        = Num (start + step * of_nat k)) \<longrightarrow>
                 (\<forall>i j. i \<le> j \<and> j < length ?bps \<longrightarrow>
                    (\<exists>a b. attr_x (bars ?s' ! i) = Some (Num a)
                         \<and> attr_x (bars ?s' ! j) = Some (Num b)
                         \<and> a \<le> b \<and> (i < j \<and> 0 < step \<longrightarrow> a < b)))"
  proof (intro allI impI)
    fix start step :: rat and i j
    assume h: "0 \<le> step \<and> distinct (map category ?bps)
                 \<and> (\<forall>k < length ?bps.
                        scaleBand sv (map category ?bps)
                          (width (viewport options)) (category (?bps ! k))
                        = Num (start + step * of_nat k))"
      and ij: "i \<le> j \<and> j < length ?bps"
    from ij have i: "i < length ?bps" and j: "j < length ?bps" by simp_all
    have xi: "attr_x (bars ?s' ! i) = Some (Num (start + step * of_nat i))"
      using each h i by simp
    have xj: "attr_x (bars ?s' ! j) = Some (Num (start + step * of_nat j))"
      using each h j by simp
    have le: "start + step * of_nat i \<le> start + step * of_nat j"
      using h ij by (simp add: mult_left_mono)
    have lt: "i < j \<and> 0 < step \<longrightarrow> start + step * of_nat i < start + step * of_nat j"
      by simp
    from xi xj le lt
    show "\<exists>a b. attr_x (bars ?s' ! i) = Some (Num a)
                         \<and> attr_x (bars ?s' ! j) = Some (Num b)
                         \<and> a \<le> b \<and> (i < j \<and> 0 < step \<longrightarrow> a < b)"
      by blast
  qed
  have "length (bars ?s') = length ?bps"
    by (simp add: rendered_bars_length blen)
  moreover have "map index ?bps = [0 ..< length ?bps]"
    using idx by (simp only: bidx blen)
  moreover have "length ?bps = max (length (cat_values cat)) (length (val_values dataValue))"
    by (simp only: blen len)
  ultimately show ?thesis
    using upd each same order by blast
qed

theorem C8_witness:
  "(0 :: nat) < max (length [Some ''X'', Some ''Y'', Some ''X''])
                    (length [JNum (Num 1), JNum (Num 2), JNum (Num 1)])
   \<and> map_sum id (\<lambda>s'. (map index (barDataPoints s'), map category (barDataPoints s'),
                        map cumulative (barDataPoints s'),
                        map (index \<circ> datum) (bars s'), map attr_x (bars s')))
       (update example_services
          (example_options [Some ''X'', Some ''Y'', Some ''X'']
             [JNum (Num 1), JNum (Num 2), JNum (Num 1)])
          (constructed (Num 210)))
     = Inr ([0, 1, 2], [''X'', ''Y'', ''X''], [Some (Num 25), Some (Num 75), Some (Num 100)],
            [0, 1, 2], [Some (Num 28), Some (Num 164), Some (Num 28)])
   \<and> (0 :: rat) \<le> 93 \<and> distinct [''A'', ''B'', ''C'']
   \<and> map (scaleBand example_services [''A'', ''B'', ''C''] (Num 300)) [''A'', ''B'', ''C'']
     = [Num (20 + 93 * of_nat 0), Num (20 + 93 * of_nat 1), Num (20 + 93 * of_nat 2)]
   \<and> map_sum id (\<lambda>s'. (map category (barDataPoints s'), map attr_x (bars s')))
       (update example_services
          (example_options [Some ''A'', Some ''B'', Some ''C'']
             [JNum (Num 10), JNum (Num 30), JNum (Num 60)])
          (constructed (Num 210)))
     = Inr ([''A'', ''B'', ''C''], [Some (Num 20), Some (Num 113), Some (Num 206)])"
proof -
  have ev: ?thesis by code_simp
  have pos1: "0 < max (length (cat_values (example_category [Some ''X'', Some ''Y'', Some ''X''])))
                 (length (val_values (example_value [JNum (Num 1), JNum (Num 2), JNum (Num 1)])))"
    by (simp add: example_category_def)
  have pos2: "0 < max (length (cat_values (example_category [Some ''A'', Some ''B'', Some ''C''])))
                 (length (val_values (example_value [JNum (Num 10), JNum (Num 30), JNum (Num 60)])))"
    by (simp add: example_category_def)
  from C8_index_order_and_band_position [OF example_paths example_formats pos1,
         of example_services "constructed (Num 210)"]
       C8_index_order_and_band_position [OF example_paths example_formats pos2,
         of example_services "constructed (Num 210)"]
       ev
  show ?thesis by blast
qed

text \<open>
  The claim as stated (index determines the x-axis ordering of the bars, also when two
  data points carry the same label) fails for the labels A, B, A: the bar of index 2 is
  drawn at the x of the bar of index 0, left of the bar of index 1.
\<close>

theorem C8_counterexample:
  "map_sum id (\<lambda>s'. (map index (barDataPoints s'), map category (barDataPoints s'),
                      map attr_x (bars s')))
     (update example_services
        (example_options [Some ''A'', Some ''B'', Some ''A'']
           [JNum (Num 10), JNum (Num 30), JNum (Num 60)])
        (constructed (Num 210)))
   = Inr ([0, 1, 2], [''A'', ''B'', ''A''], [Some (Num 28), Some (Num 164), Some (Num 28)])"
  by code_simp

end
